theory Spec2Isabelle
  imports Main "HOL-Library.Word"
begin

unbundle bit_operations_syntax

section \<open>MicroSocks (sockssrv.c): data model\<close>

text \<open>
  Bytes on the wire are 8-bit words, a received message is the list of the \<open>n\<close> bytes that
  \<open>recv\<close> stored in the buffer (the code never reads \<open>buf[i]\<close> for \<open>i \<ge> n\<close> after its length
  checks, and \<open>recv\<close> returned \<open>n > 0\<close> before any parser runs). File descriptors and the
  return values of system calls are integers.
\<close>

type_synonym byte = "8 word"
type_synonym bytes = "8 word list"
type_synonym fd = int

text \<open>
  The reply codes of \<open>enum errorcode\<close>. The header \<open>sockssrv.h\<close> that declares the enum is
  not part of the sources at hand; the numbering is the one of RFC 1928 that the reply-code
  table of the specification lists.
\<close>

datatype errorcode =
    EC_SUCCESS
  | EC_GENERAL_FAILURE
  | EC_NOT_ALLOWED
  | EC_NET_UNREACHABLE
  | EC_HOST_UNREACHABLE
  | EC_CONN_REFUSED
  | EC_TTL_EXPIRED
  | EC_COMMAND_NOT_SUPPORTED
  | EC_ADDRESSTYPE_NOT_SUPPORTED

text \<open>Modelled from the spec: the numeric values of \<open>enum errorcode\<close> (sockssrv.h).\<close>

fun ec_code :: "errorcode \<Rightarrow> byte" where
  "ec_code EC_SUCCESS = 0"
| "ec_code EC_GENERAL_FAILURE = 1"
| "ec_code EC_NOT_ALLOWED = 2"
| "ec_code EC_NET_UNREACHABLE = 3"
| "ec_code EC_HOST_UNREACHABLE = 4"
| "ec_code EC_CONN_REFUSED = 5"
| "ec_code EC_TTL_EXPIRED = 6"
| "ec_code EC_COMMAND_NOT_SUPPORTED = 7"
| "ec_code EC_ADDRESSTYPE_NOT_SUPPORTED = 8"

datatype authmethod = AM_NO_AUTH | AM_USERNAME | AM_INVALID

text \<open>Modelled from the spec: the numeric values of \<open>enum authmethod\<close> (sockssrv.h).\<close>

fun am_code :: "authmethod \<Rightarrow> byte" where
  "am_code AM_NO_AUTH = 0"
| "am_code AM_USERNAME = 2"
| "am_code AM_INVALID = 255"

datatype af = AF_INET | AF_INET6

text \<open>
  Modelled from the spec: \<open>union sockaddr_union\<close> and its accessor macros (server.h), a
  socket address as family, raw address and port: the address family, the raw address
  bytes that \<open>SOCKADDR_UNION_ADDRESS\<close> points at, and the port in host order.
\<close>

record sockaddr =
  sa_family :: af
  sa_addr :: bytes
  sa_port :: "16 word"

text \<open>
  The process-wide authentication settings: \<open>auth_user\<close> and \<open>auth_pass\<close> are C strings or
  \<open>NULL\<close>, \<open>auth_ips\<close> is the whitelist or \<open>NULL\<close>. A C string is kept as the bytes before its
  terminating NUL.
\<close>

record config =
  auth_user :: "bytes option"
  auth_pass :: "bytes option"
  auth_ips :: "sockaddr list option"

subsection \<open>C strings\<close>

text \<open>
  \<open>c_str m\<close> is the string that a char array starting with the bytes \<open>m\<close> and followed by a
  NUL holds: everything before the first NUL.
\<close>

definition c_str :: "bytes \<Rightarrow> bytes" where
  "c_str m = takeWhile (\<lambda>c. c \<noteq> 0) m"

text \<open>
  \<open>strcmp\<close> of libc on two such arrays: bytes are compared as unsigned chars up to the first
  difference or the first NUL. The end of the list stands for the terminating NUL.
\<close>

fun strcmp :: "bytes \<Rightarrow> bytes \<Rightarrow> int" where
  "strcmp [] [] = 0"
| "strcmp [] (b # bs) = (if b = 0 then 0 else -1)"
| "strcmp (a # as) [] = (if a = 0 then 0 else 1)"
| "strcmp (a # as) (b # bs) =
     (if a < b then -1 else if b < a then 1 else if a = 0 then 0 else strcmp as bs)"

text \<open>\<open>strncpy(dst, src, k)\<close> followed by \<open>dst[k] = 0\<close>: the C string left in \<open>dst\<close>.\<close>

definition strncpy :: "nat \<Rightarrow> bytes \<Rightarrow> bytes" where
  "strncpy k src = take k (c_str src)"

section \<open>Username/password check\<close>

text \<open>
  \<open>check_credentials\<close> (lines 631--650). \<open>user\<close> and \<open>pass\<close> are the local arrays after the two
  \<open>memcpy\<close> calls and the stores of the terminating NUL; the configured strings are the
  arguments \<open>au\<close> and \<open>ap\<close>.
\<close>

definition check_credentials :: "bytes \<Rightarrow> bytes \<Rightarrow> bytes \<Rightarrow> errorcode" where
  "check_credentials au ap buf =
     (let n = length buf in
      if n < 5 then EC_GENERAL_FAILURE
      else if buf ! 0 \<noteq> 1 then EC_GENERAL_FAILURE
      else
        let ulen = unat (buf ! 1) in
        if n < 2 + ulen + 2 then EC_GENERAL_FAILURE
        else
          let plen = unat (buf ! (2 + ulen)) in
          if n < 2 + ulen + 1 + plen then EC_GENERAL_FAILURE
          else
            let user = take ulen (drop 2 buf) @ [0];
                pass = take plen (drop (2 + ulen + 1) buf) @ [0]
            in if strcmp user (au @ [0]) = 0 \<and> strcmp pass (ap @ [0]) = 0
               then EC_SUCCESS else EC_NOT_ALLOWED)"

text \<open>
  The RFC 1929 message for a user name and a password: \<open>01, ulen, user, plen, pass\<close>.
\<close>

definition cred_frame :: "bytes \<Rightarrow> bytes \<Rightarrow> bytes" where
  "cred_frame user pass =
     [1, of_nat (length user)] @ user @ [of_nat (length pass)] @ pass"

section \<open>Whitelist and method selection\<close>

text \<open>\<open>is_authed\<close> (lines 232--241): same family and the same 4 or 16 address bytes.\<close>

definition is_authed :: "sockaddr \<Rightarrow> sockaddr \<Rightarrow> bool" where
  "is_authed client authedip =
     (let af = sa_family authedip in
      if af = sa_family client then
        (let cmpbytes = (if af = AF_INET then 4 else 16 :: nat) in
         take cmpbytes (sa_addr client) = take cmpbytes (sa_addr authedip))
      else False)"

text \<open>\<open>is_in_authed_list\<close> (lines 243--249): linear scan of the whitelist.\<close>

fun is_in_authed_list :: "sockaddr \<Rightarrow> sockaddr list \<Rightarrow> bool" where
  "is_in_authed_list caddr [] = False"
| "is_in_authed_list caddr (ip # ips) =
     (if is_authed caddr ip then True else is_in_authed_list caddr ips)"

text \<open>
  \<open>check_auth_method\<close> (lines 255--279). \<open>rdlock i\<close> tells whether
  \<open>pthread_rwlock_rdlock\<close> succeeds when the loop is at index \<open>i\<close>; the whitelist is the one
  of the configuration for the whole call.
\<close>

function auth_method_loop ::
  "config \<Rightarrow> (nat \<Rightarrow> bool) \<Rightarrow> sockaddr \<Rightarrow> bytes \<Rightarrow> nat \<Rightarrow> nat \<Rightarrow> authmethod" where
  "auth_method_loop cfg rdlock client buf idx n_methods =
     (if idx < length buf \<and> n_methods > 0 then
        (if buf ! idx = am_code AM_NO_AUTH then
           (if auth_user cfg = None then AM_NO_AUTH
            else if auth_ips cfg \<noteq> None \<and> rdlock idx
                    \<and> is_in_authed_list client (the (auth_ips cfg))
            then AM_NO_AUTH
            else auth_method_loop cfg rdlock client buf (idx + 1) (n_methods - 1))
         else if buf ! idx = am_code AM_USERNAME \<and> auth_user cfg \<noteq> None then AM_USERNAME
         else auth_method_loop cfg rdlock client buf (idx + 1) (n_methods - 1))
      else AM_INVALID)"
  by pat_completeness auto
termination
  by (relation "measure (\<lambda>(cfg, rdlock, client, buf, idx, n_methods). n_methods)") auto

declare auth_method_loop.simps [simp del]

definition check_auth_method ::
  "config \<Rightarrow> (nat \<Rightarrow> bool) \<Rightarrow> sockaddr \<Rightarrow> bytes \<Rightarrow> authmethod" where
  "check_auth_method cfg rdlock client buf =
     (if buf ! 0 \<noteq> 5 then AM_INVALID
      else if 1 \<ge> length buf then AM_INVALID
      else auth_method_loop cfg rdlock client buf 2 (unat (buf ! 1)))"

text \<open>The method-selection message \<open>05, nmethods, methods\<close> of RFC 1928.\<close>

definition greeting :: "bytes \<Rightarrow> bytes" where
  "greeting ms = [5, of_nat (length ms)] @ ms"

section \<open>Addresses on the wire\<close>

datatype socks5_addr_type = SOCKS5_IPV4 | SOCKS5_DNS | SOCKS5_IPV6

text \<open>Modelled from the spec: the numeric values of \<open>enum socks5_addr_type\<close> (sockssrv.h).\<close>

fun atyp_code :: "socks5_addr_type \<Rightarrow> byte" where
  "atyp_code SOCKS5_IPV4 = 1"
| "atyp_code SOCKS5_DNS = 3"
| "atyp_code SOCKS5_IPV6 = 4"

text \<open>
  Modelled from the spec: \<open>MAX_DNS_LEN\<close> (sockssrv.h), the bound on a domain name. The
  local array \<open>namebuf\<close> has \<open>MAX_DNS_LEN + 1\<close> bytes and receives up to 255 name bytes and a
  NUL.
\<close>

definition MAX_DNS_LEN :: nat where
  "MAX_DNS_LEN = 255"

text \<open>
  \<open>struct socks5_addrport\<close>: \<open>ap_addr\<close> holds the leading bytes of the char array \<open>addr\<close>,
  which a NUL follows; the text the code reads from it is \<open>c_str (ap_addr x)\<close>.
\<close>

record socks5_addrport =
  ap_type :: socks5_addr_type
  ap_addr :: bytes
  ap_port :: "16 word"

datatype socks5_socket_type = TCP_SOCKET | UDP_SOCKET

text \<open>
  Modelled from the spec: the resolver \<open>resolve_tcp\<close>/\<open>resolve_udp\<close> (server.h), an opaque
  capability from host text, port and socket kind to a socket address (\<open>None\<close> when it
  returns non-zero). It is a parameter of the model, and so are \<open>inet_ntop\<close> and
  \<open>inet_pton\<close> of libc: raw address bytes to text and back, \<open>None\<close> when the call reports
  failure; \<open>inet_pton\<close> yields the 4 or 16 bytes it stores.
\<close>

record platform =
  inet_ntop :: "af \<Rightarrow> bytes \<Rightarrow> bytes option"
  inet_pton :: "af \<Rightarrow> bytes \<Rightarrow> bytes option"
  resolve :: "socks5_socket_type \<Rightarrow> bytes \<Rightarrow> 16 word \<Rightarrow> sockaddr option"

text \<open>\<open>compareSocks5Addrport\<close> (lines 110--117); \<open>True\<close> stands for the result 0.\<close>

definition compareSocks5Addrport :: "socks5_addrport \<Rightarrow> socks5_addrport \<Rightarrow> bool" where
  "compareSocks5Addrport addrport1 addrport2 =
     (ap_type addrport1 = ap_type addrport2
      \<and> strcmp (ap_addr addrport1 @ [0]) (ap_addr addrport2 @ [0]) = 0
      \<and> ap_port addrport1 = ap_port addrport2)"

text \<open>\<open>resolveSocks5Addrport\<close> (lines 119--133).\<close>

definition resolveSocks5Addrport ::
  "platform \<Rightarrow> socks5_addrport \<Rightarrow> socks5_socket_type \<Rightarrow> errorcode + sockaddr" where
  "resolveSocks5Addrport P addrport stype =
     (case resolve P stype (c_str (ap_addr addrport)) (ap_port addrport) of
        None \<Rightarrow> Inl EC_GENERAL_FAILURE
      | Some addr \<Rightarrow> Inr addr)"

text \<open>
  \<open>parse_addrport\<close> (lines 135--169). The tail of the function, from line 164 on, stores the
  type, copies \<open>namebuf\<close> with \<open>strncpy\<close>, reads the port big-endian and returns \<open>minlen\<close>.
\<close>

definition addrport_of ::
  "socks5_addr_type \<Rightarrow> bytes \<Rightarrow> nat \<Rightarrow> bytes \<Rightarrow> socks5_addrport \<times> nat" where
  "addrport_of type namebuf minlen buf =
     (\<lparr>ap_type = type,
       ap_addr = strncpy MAX_DNS_LEN namebuf,
       ap_port = push_bit 8 (ucast (buf ! (minlen - 2))) OR ucast (buf ! (minlen - 1))\<rparr>,
      minlen)"

definition parse_ip ::
  "platform \<Rightarrow> af \<Rightarrow> socks5_addr_type \<Rightarrow> nat \<Rightarrow> nat \<Rightarrow> bytes
     \<Rightarrow> errorcode + (socks5_addrport \<times> nat)" where
  "parse_ip P family type alen minlen buf =
     (if length buf < minlen then Inl EC_GENERAL_FAILURE
      else case inet_ntop P family (take alen (drop 1 buf)) of
             None \<Rightarrow> Inl EC_GENERAL_FAILURE
           | Some namebuf \<Rightarrow> Inr (addrport_of type (namebuf @ [0]) minlen buf))"

definition parse_addrport :: "platform \<Rightarrow> bytes \<Rightarrow> errorcode + (socks5_addrport \<times> nat)" where
  "parse_addrport P buf =
     (let n = length buf in
      if n < 2 then Inl EC_GENERAL_FAILURE
      else if buf ! 0 = atyp_code SOCKS5_IPV6 then
        parse_ip P AF_INET6 SOCKS5_IPV6 16 (1 + 16 + 2) buf
      else if buf ! 0 = atyp_code SOCKS5_IPV4 then
        parse_ip P AF_INET SOCKS5_IPV4 4 (1 + 4 + 2) buf
      else if buf ! 0 = atyp_code SOCKS5_DNS then
        (let l = unat (buf ! 1);
             minlen = 1 + (1 + l) + 2
         in if n < minlen then Inl EC_GENERAL_FAILURE
            else Inr (addrport_of SOCKS5_DNS (take l (drop 2 buf) @ [0]) minlen buf))
      else Inl EC_ADDRESSTYPE_NOT_SUPPORTED)"

datatype command = CONNECT | UDP_ASSOCIATE

text \<open>Modelled from the spec: the command bytes \<open>CONNECT\<close> and \<open>UDP_ASSOCIATE\<close> (sockssrv.h).\<close>

fun cmd_code :: "command \<Rightarrow> byte" where
  "cmd_code CONNECT = 1"
| "cmd_code UDP_ASSOCIATE = 3"

text \<open>
  \<open>parse_socks_request_header\<close> (lines 171--188); \<open>VERSION\<close> is 5 and \<open>RSV\<close> is 0. A
  negative return value \<open>-ec\<close> is \<open>Inl ec\<close>; \<open>EC_SUCCESS\<close> comes with the command and the
  resolved address stored through the two pointers.
\<close>

definition parse_socks_request_header ::
  "platform \<Rightarrow> bytes \<Rightarrow> errorcode + (command \<times> sockaddr)" where
  "parse_socks_request_header P buf =
     (if length buf < 3 then Inl EC_GENERAL_FAILURE
      else if buf ! 0 \<noteq> 5 then Inl EC_GENERAL_FAILURE
      else if buf ! 1 \<noteq> cmd_code CONNECT \<and> buf ! 1 \<noteq> cmd_code UDP_ASSOCIATE
        then Inl EC_COMMAND_NOT_SUPPORTED
      else
        let cmd = (if buf ! 1 = cmd_code CONNECT then CONNECT else UDP_ASSOCIATE) in
        if buf ! 2 \<noteq> 0 then Inl EC_GENERAL_FAILURE
        else case parse_addrport P (drop 3 buf) of
               Inl e \<Rightarrow> Inl e
             | Inr (addrport, ret) \<Rightarrow>
                 (let socktype = (if cmd = CONNECT then TCP_SOCKET else UDP_SOCKET) in
                  case resolveSocks5Addrport P addrport socktype of
                    Inl e \<Rightarrow> Inl e
                  | Inr svc_addr \<Rightarrow> Inr (cmd, svc_addr)))"

text \<open>
  The address part of a UDP reply header, as \<open>copy_loop_udp\<close> writes it into \<open>buf\<close> from
  index 3 on (lines 580--607): type byte, address, port big-endian. \<open>None\<close> is the jump to
  \<open>UDP_LOOP_END\<close> when \<open>inet_pton\<close> rejects the stored text.
\<close>

definition port_bytes :: "16 word \<Rightarrow> bytes" where
  "port_bytes port = [ucast (drop_bit 8 port), ucast (port AND 0xFF)]"

definition encode_addrport :: "platform \<Rightarrow> socks5_addrport \<Rightarrow> bytes option" where
  "encode_addrport P addrport =
     (case ap_type addrport of
        SOCKS5_DNS \<Rightarrow>
          (let len = length (c_str (ap_addr addrport)) in
           Some ([atyp_code SOCKS5_DNS, of_nat len] @ take len (ap_addr addrport)
                 @ port_bytes (ap_port addrport)))
      | SOCKS5_IPV4 \<Rightarrow>
          (case inet_pton P AF_INET (c_str (ap_addr addrport)) of
             None \<Rightarrow> None
           | Some addr_in4 \<Rightarrow>
               Some ([atyp_code SOCKS5_IPV4] @ addr_in4 @ port_bytes (ap_port addrport)))
      | SOCKS5_IPV6 \<Rightarrow>
          (case inet_pton P AF_INET6 (c_str (ap_addr addrport)) of
             None \<Rightarrow> None
           | Some addr_in6 \<Rightarrow>
               Some ([atyp_code SOCKS5_IPV6] @ addr_in6 @ port_bytes (ap_port addrport))))"

section \<open>System calls and what they leave behind\<close>

text \<open>
  The code acts on the world through system calls. A run of a function is described by
  the list of the calls it made, in order, each with what it transferred or returned; the
  return values themselves are inputs of the model, given with the event or message during
  whose handling the call is made.
  \<^item> \<open>Recv fd bs\<close>: \<open>read\<close>, \<open>recv\<close> or \<open>recvfrom\<close> on \<open>fd\<close> stored the bytes \<open>bs\<close>; the empty
    list is a call that stored nothing.
  \<^item> \<open>Write fd bs r\<close>: \<open>write\<close> or \<open>send\<close> on \<open>fd\<close> was given the bytes \<open>bs\<close> and returned \<open>r\<close>,
    the number of bytes it took, or a negative number.
  \<^item> \<open>Socket r\<close>, \<open>Connect fd addr ok\<close>, \<open>Bind fd ok\<close>, \<open>Close fd\<close>: the calls of these names.
  \<^item> \<open>Register fds ok\<close>: a \<open>kevent\<close> call that adds read filters for \<open>fds\<close> to the queue.
  \<^item> \<open>Report up down\<close>: the callback \<open>update_traffic_stats_ui\<close> with the two totals.
  \<^item> \<open>Abort\<close>: the process aborts.
\<close>

datatype action =
    Recv fd bytes
  | Write fd bytes int
  | Socket int
  | Connect fd sockaddr bool
  | Bind fd bool
  | Register "fd list" bool
  | Report "64 word" "64 word"
  | Close fd
  | Abort

text \<open>
  How a piece of code leaves: \<open>Continue\<close> goes on with the next iteration of the enclosing
  loop, \<open>Return\<close> leaves the loop for good (\<open>return\<close>, \<open>break\<close> or a \<open>goto\<close> to the end), and
  \<open>Blocked\<close> is a run that is still waiting for a system call when the given inputs end.
\<close>

datatype outcome = Continue | Return | Blocked

text \<open>What one \<open>kevent\<close> wait returns: \<open>-1\<close> with \<open>EINTR\<close> or \<open>EAGAIN\<close>, \<open>-1\<close> with
  another error, or the list of ready events.\<close>

datatype 'e kevent_result = KAgain | KError | KReady "'e list"

section \<open>TCP relay\<close>

record traffic =
  total_upload_bytes :: "64 word"
  total_download_bytes :: "64 word"

text \<open>
  \<open>update_traffic_stats\<close> (lines 324--330): both additions and the callback are one step,
  made while \<open>stats_mutex\<close> is held.
\<close>

definition update_traffic_stats :: "nat \<Rightarrow> nat \<Rightarrow> traffic \<Rightarrow> action list \<times> traffic" where
  "update_traffic_stats uploaded downloaded s =
     (let s' = \<lparr>total_upload_bytes = total_upload_bytes s + of_nat uploaded,
                total_download_bytes = total_download_bytes s + of_nat downloaded\<rparr>
      in ([Report (total_upload_bytes s') (total_download_bytes s')], s'))"

text \<open>
  A ready event of \<open>copyloop\<close> with the results of the calls made for it: \<open>ev_rd\<close> is what
  \<open>read\<close> stores (empty when it returns 0 or \<open>-1\<close>), \<open>ev_wr\<close> the return values of the
  successive \<open>write\<close> calls.
\<close>

record ready =
  ev_ident :: int
  ev_readable :: bool
  ev_rd :: bytes
  ev_wr :: "int list"

text \<open>
  The inner loop \<open>while (sent < n)\<close> (lines 372--379); the first argument of the recursion
  is \<open>buf + sent\<close> with its \<open>n - sent\<close> bytes.
\<close>

fun write_all :: "fd \<Rightarrow> bytes \<Rightarrow> int list \<Rightarrow> action list \<times> outcome" where
  "write_all outfd [] ms = ([], Continue)"
| "write_all outfd (b # bs) [] = ([], Blocked)"
| "write_all outfd (b # bs) (m # ms) =
     (if m < 0 then ([Write outfd (b # bs) m], Return)
      else case write_all outfd (drop (nat m) (b # bs)) ms of
             (tr, out) \<Rightarrow> (Write outfd (b # bs) m # tr, out))"

text \<open>The body of the \<open>for\<close> loop (lines 361--386) for one ready event.\<close>

definition copy_event ::
  "fd \<Rightarrow> fd \<Rightarrow> fd \<Rightarrow> traffic \<Rightarrow> ready \<Rightarrow> action list \<times> traffic \<times> outcome" where
  "copy_event fd1 fd2 kq s ev =
     (let infd = ev_ident ev;
          outfd = (if infd = fd1 then fd2 else fd1)
      in if ev_readable ev then
           (if ev_rd ev = [] then ([Recv infd [], Close kq], s, Return)
            else case write_all outfd (ev_rd ev) (ev_wr ev) of
                   (tr, Return) \<Rightarrow> (Recv infd (ev_rd ev) # tr @ [Close kq], s, Return)
                 | (tr, Blocked) \<Rightarrow> (Recv infd (ev_rd ev) # tr, s, Blocked)
                 | (tr, Continue) \<Rightarrow>
                     (case (if infd = fd1 then update_traffic_stats (length (ev_rd ev)) 0 s
                            else update_traffic_stats 0 (length (ev_rd ev)) s) of
                        (rep, s') \<Rightarrow> (Recv infd (ev_rd ev) # tr @ rep, s', Continue)))
         else ([], s, Continue))"

text \<open>The \<open>for\<close> loop over the events of one wait (lines 360--387).\<close>

fun copy_events ::
  "fd \<Rightarrow> fd \<Rightarrow> fd \<Rightarrow> traffic \<Rightarrow> ready list \<Rightarrow> action list \<times> traffic \<times> outcome" where
  "copy_events fd1 fd2 kq s [] = ([], s, Continue)"
| "copy_events fd1 fd2 kq s (ev # evs) =
     (case copy_event fd1 fd2 kq s ev of
        (tr, s', Continue) \<Rightarrow>
          (case copy_events fd1 fd2 kq s' evs of (tr', r) \<Rightarrow> (tr @ tr', r))
      | (tr, s', out) \<Rightarrow> (tr, s', out))"

text \<open>
  The \<open>while (1)\<close> loop (lines 350--388) and the \<open>close(kq)\<close> after it, over the results of
  the successive \<open>kevent\<close> waits.
\<close>

fun copy_rounds ::
  "fd \<Rightarrow> fd \<Rightarrow> fd \<Rightarrow> traffic \<Rightarrow> ready kevent_result list
     \<Rightarrow> action list \<times> traffic \<times> outcome" where
  "copy_rounds fd1 fd2 kq s [] = ([], s, Blocked)"
| "copy_rounds fd1 fd2 kq s (KAgain # ks) = copy_rounds fd1 fd2 kq s ks"
| "copy_rounds fd1 fd2 kq s (KError # ks) = ([Close kq], s, Return)"
| "copy_rounds fd1 fd2 kq s (KReady evs # ks) =
     (if evs = [] then ([Close kq], s, Return)
      else case copy_events fd1 fd2 kq s evs of
             (tr, s', Continue) \<Rightarrow>
               (case copy_rounds fd1 fd2 kq s' ks of (tr', r) \<Rightarrow> (tr @ tr', r))
           | (tr, s', out) \<Rightarrow> (tr, s', out))"

text \<open>
  \<open>copyloop\<close> (lines 331--391): \<open>cl_kq\<close> is the result of \<open>kqueue()\<close>, \<open>cl_register\<close> tells
  whether the first \<open>kevent\<close> call succeeds.
\<close>

record copy_io =
  cl_kq :: int
  cl_register :: bool
  cl_rounds :: "ready kevent_result list"

definition copyloop ::
  "fd \<Rightarrow> fd \<Rightarrow> copy_io \<Rightarrow> traffic \<Rightarrow> action list \<times> traffic \<times> outcome" where
  "copyloop fd1 fd2 io s =
     (if cl_kq io = -1 then ([], s, Return)
      else if \<not> cl_register io then
        ([Register [fd1, fd2] False, Close (cl_kq io)], s, Return)
      else case copy_rounds fd1 fd2 (cl_kq io) s (cl_rounds io) of
             (tr, r) \<Rightarrow> (Register [fd1, fd2] True # tr, r))"




section \<open>Error replies\<close>

text \<open>
  \<open>send_error\<close> (lines 313--318): ten bytes with the code in the second one and an IPv4
  address of zeros; the result of \<open>write\<close> is not looked at. The code arrives as an
  \<open>int\<close> and is stored in a \<open>char\<close>.
\<close>

definition error_reply :: "int \<Rightarrow> bytes" where
  "error_reply ec = [5, of_int ec, 0, 1, 0, 0, 0, 0, 0, 0]"

definition send_error :: "fd \<Rightarrow> int \<Rightarrow> int \<Rightarrow> action list" where
  "send_error f ec r = [Write f (error_reply ec) r]"

section \<open>UDP relay\<close>

text \<open>\<open>extract_udp_data\<close> (lines 394--408): the address and the offset of the payload.\<close>

definition extract_udp_data ::
  "platform \<Rightarrow> bytes \<Rightarrow> errorcode + (socks5_addrport \<times> nat)" where
  "extract_udp_data P buf =
     (if length buf < 3 then Inl EC_GENERAL_FAILURE
      else if buf ! 0 \<noteq> 0 \<or> buf ! 1 \<noteq> 0 then Inl EC_GENERAL_FAILURE
      else if buf ! 2 \<noteq> 0 then Inl EC_GENERAL_FAILURE
      else case parse_addrport P (drop 3 buf) of
             Inl e \<Rightarrow> Inl e
           | Inr (addrport, ret) \<Rightarrow> Inr (addrport, 3 + ret))"

text \<open>\<open>struct fd_socks5addr\<close>: one entry of the flow table.\<close>

record fd_socks5addr =
  item_fd :: fd
  item_addrport :: socks5_addrport

text \<open>
  Modelled from the spec: the growable list \<open>sblist\<close> (sblist.h), kept as a list.
  \<open>sblist_add\<close> appends an item, \<open>sblist_search\<close> returns the index of the first item for
  which the comparison returns 0 (\<open>None\<close> for \<open>-1\<close>).
\<close>

definition sblist_add :: "'a list \<Rightarrow> 'a \<Rightarrow> 'a list" where
  "sblist_add l item = l @ [item]"

fun sblist_search :: "'a list \<Rightarrow> ('a \<Rightarrow> bool) \<Rightarrow> nat option" where
  "sblist_search [] cmp = None"
| "sblist_search (x # xs) cmp =
     (if cmp x then Some 0 else map_option Suc (sblist_search xs cmp))"

text \<open>
  The state of \<open>copy_loop_udp\<close> between two events: whether the client's UDP address is
  pinned, and the flow table \<open>sock_list\<close>.
\<close>

record udp_state =
  udp_is_bound :: bool
  sock_list :: "fd_socks5addr list"

text \<open>
  What a \<open>read\<close> or \<open>recv\<close> of the UDP relay returns: data (\<open>n \<ge> 0\<close> bytes), \<open>-1\<close> with
  \<open>EINTR\<close> or \<open>EAGAIN\<close>, or \<open>-1\<close> with another error.
\<close>

datatype io_result = IoData bytes | IoAgain | IoError

text \<open>
  A ready event of \<open>copy_loop_udp\<close> with the results of the calls made for it:
  \<open>u_tcp_read\<close> for the \<open>read\<close> on the control socket, \<open>u_udp_recv\<close> and \<open>u_peer\<close> for the
  \<open>recv\<close>/\<open>recvfrom\<close> on the client's UDP socket, \<open>u_pin_ok\<close> for the \<open>connect\<close> that pins the
  client, \<open>u_socket\<close>, \<open>u_connect_ok\<close> and \<open>u_register_ok\<close> for the creation of a flow socket,
  \<open>u_send\<close> for the \<open>send\<close> to the target, \<open>u_error_write\<close> for the \<open>write\<close> of \<open>send_error\<close>,
  \<open>u_target_recv\<close> for the \<open>recv\<close> on a flow socket (empty when it returns 0 or \<open>-1\<close>) and
  \<open>u_reply_write\<close> for the \<open>write\<close> of the reply datagram.
\<close>

record udp_ready =
  u_ident :: int
  u_tcp_read :: io_result
  u_udp_recv :: io_result
  u_peer :: sockaddr
  u_pin_ok :: bool
  u_socket :: int
  u_connect_ok :: bool
  u_register_ok :: bool
  u_send :: int
  u_error_write :: int
  u_target_recv :: bytes
  u_reply_write :: int

text \<open>
  Inside the \<open>for\<close> loop of \<open>copy_loop_udp\<close> a block either falls through to the next
  statement (\<open>Next\<close>), jumps to the next event with \<open>continue\<close> (\<open>Skip\<close>), or jumps to
  \<open>UDP_LOOP_END\<close> (\<open>End\<close>).
\<close>

datatype flow = Next | Skip | End

text \<open>The block for the control socket (lines 477--490).\<close>

definition udp_tcp_block :: "fd \<Rightarrow> udp_ready \<Rightarrow> action list \<times> flow" where
  "udp_tcp_block tcp_fd ev =
     (case u_tcp_read ev of
        IoData bs \<Rightarrow> if bs = [] then ([Recv tcp_fd []], End) else ([Recv tcp_fd bs], Next)
      | IoAgain \<Rightarrow> ([], Skip)
      | IoError \<Rightarrow> ([], End))"

text \<open>
  Forwarding a datagram received from the client (lines 514--564): deframe it, find or
  create the flow socket for its destination, send the payload.
\<close>

definition udp_forward ::
  "platform \<Rightarrow> fd \<Rightarrow> udp_state \<Rightarrow> udp_ready \<Rightarrow> bytes \<Rightarrow> action list \<times> udp_state \<times> flow" where
  "udp_forward P tcp_fd st ev buf =
     (case extract_udp_data P buf of
        Inl e \<Rightarrow> ([], st, End)
      | Inr (addrport, offset) \<Rightarrow>
          (case sblist_search (sock_list st)
                  (\<lambda>it. compareSocks5Addrport addrport (item_addrport it)) of
             Some idx \<Rightarrow>
               (let send_fd = item_fd (sock_list st ! idx)
                in ([Write send_fd (drop offset buf) (u_send ev)], st,
                    if u_send ev < 0 then End else Next))
           | None \<Rightarrow>
               (case resolveSocks5Addrport P addrport UDP_SOCKET of
                  Inl ret \<Rightarrow> ([], st, End)
                | Inr target_addr \<Rightarrow>
                    (let f = u_socket ev in
                     if \<not> u_connect_ok ev then
                       ([Socket f, Connect f target_addr False]
                          @ send_error tcp_fd 1 (u_error_write ev), st, End)
                     else
                       let st' = st\<lparr>sock_list :=
                                   sblist_add (sock_list st)
                                     \<lparr>item_fd = f, item_addrport = addrport\<rparr>\<rparr>
                       in if \<not> u_register_ok ev then
                            ([Socket f, Connect f target_addr True, Register [f] False],
                             st', End)
                          else
                            ([Socket f, Connect f target_addr True, Register [f] True,
                              Write f (drop offset buf) (u_send ev)], st',
                             if u_send ev < 0 then End else Next)))))"

text \<open>The block for the client's UDP socket (lines 493--565).\<close>

definition udp_client_block ::
  "platform \<Rightarrow> fd \<Rightarrow> fd \<Rightarrow> udp_state \<Rightarrow> udp_ready \<Rightarrow> action list \<times> udp_state \<times> flow" where
  "udp_client_block P tcp_fd udp_fd st ev =
     (case u_udp_recv ev of
        IoAgain \<Rightarrow> ([], st, Skip)
      | IoError \<Rightarrow> ([], st, End)
      | IoData buf \<Rightarrow>
          if udp_is_bound st then
            (case udp_forward P tcp_fd st ev buf of
               (tr, r) \<Rightarrow> (Recv udp_fd buf # tr, r))
          else if \<not> u_pin_ok ev then
            ([Recv udp_fd buf, Connect udp_fd (u_peer ev) False], st, End)
          else
            (case udp_forward P tcp_fd (st\<lparr>udp_is_bound := True\<rparr>) ev buf of
               (tr, r) \<Rightarrow> (Recv udp_fd buf # Connect udp_fd (u_peer ev) True # tr, r)))"

text \<open>
  The block for a flow socket (lines 568--618): the reply header is \<open>RSV, RSV, FRAG\<close> and
  the stored address of the flow, followed by the datagram received from the target.
\<close>

definition udp_target_block ::
  "platform \<Rightarrow> fd \<Rightarrow> udp_state \<Rightarrow> udp_ready \<Rightarrow> fd \<Rightarrow> action list \<times> flow" where
  "udp_target_block P udp_fd st ev f =
     (case sblist_search (sock_list st) (\<lambda>it. item_fd it = f) of
        None \<Rightarrow> ([], End)
      | Some idx \<Rightarrow>
          (case encode_addrport P (item_addrport (sock_list st ! idx)) of
             None \<Rightarrow> ([], End)
           | Some a \<Rightarrow>
               if u_target_recv ev = [] then ([Recv f []], End)
               else ([Recv f (u_target_recv ev),
                      Write udp_fd ([0, 0, 0] @ a @ u_target_recv ev) (u_reply_write ev)],
                     if u_reply_write ev < 0 then End else Next)))"

text \<open>The body of the \<open>for\<close> loop (lines 471--618): the three blocks one after the other.\<close>

definition udp_event ::
  "platform \<Rightarrow> fd \<Rightarrow> fd \<Rightarrow> udp_state \<Rightarrow> udp_ready \<Rightarrow> action list \<times> udp_state \<times> flow" where
  "udp_event P tcp_fd udp_fd st ev =
     (let f = u_ident ev in
      case (if f = tcp_fd then udp_tcp_block tcp_fd ev else ([], Next)) of
        (tr1, Next) \<Rightarrow>
          (case (if f = udp_fd then udp_client_block P tcp_fd udp_fd st ev
                 else ([], st, Next)) of
             (tr2, st2, Next) \<Rightarrow>
               (case (if f \<noteq> tcp_fd \<and> f \<noteq> udp_fd then udp_target_block P udp_fd st2 ev f
                      else ([], Next)) of
                  (tr3, r) \<Rightarrow> (tr1 @ tr2 @ tr3, st2, r))
           | (tr2, st2, r) \<Rightarrow> (tr1 @ tr2, st2, r))
      | (tr1, r) \<Rightarrow> (tr1, st, r))"

text \<open>The \<open>for\<close> loop over the events of one wait (lines 470--619).\<close>

fun udp_events ::
  "platform \<Rightarrow> fd \<Rightarrow> fd \<Rightarrow> udp_state \<Rightarrow> udp_ready list
     \<Rightarrow> action list \<times> udp_state \<times> flow" where
  "udp_events P tcp_fd udp_fd st [] = ([], st, Next)"
| "udp_events P tcp_fd udp_fd st (ev # evs) =
     (case udp_event P tcp_fd udp_fd st ev of
        (tr, st', End) \<Rightarrow> (tr, st', End)
      | (tr, st', r) \<Rightarrow>
          (case udp_events P tcp_fd udp_fd st' evs of (tr', r') \<Rightarrow> (tr @ tr', r')))"

text \<open>The \<open>while (1)\<close> loop (lines 461--620) up to the jump to \<open>UDP_LOOP_END\<close>.\<close>

fun udp_rounds ::
  "platform \<Rightarrow> fd \<Rightarrow> fd \<Rightarrow> udp_state \<Rightarrow> udp_ready kevent_result list
     \<Rightarrow> action list \<times> udp_state \<times> outcome" where
  "udp_rounds P tcp_fd udp_fd st [] = ([], st, Blocked)"
| "udp_rounds P tcp_fd udp_fd st (KAgain # ks) = udp_rounds P tcp_fd udp_fd st ks"
| "udp_rounds P tcp_fd udp_fd st (KError # ks) = ([], st, Return)"
| "udp_rounds P tcp_fd udp_fd st (KReady evs # ks) =
     (case udp_events P tcp_fd udp_fd st evs of
        (tr, st', End) \<Rightarrow> (tr, st', Return)
      | (tr, st', r) \<Rightarrow>
          (case udp_rounds P tcp_fd udp_fd st' ks of (tr', r') \<Rightarrow> (tr @ tr', r')))"

text \<open>The code at \<open>UDP_LOOP_END\<close> (lines 622--628).\<close>

definition udp_teardown :: "fd \<Rightarrow> udp_state \<Rightarrow> action list" where
  "udp_teardown kq st = map (\<lambda>it. Close (item_fd it)) (sock_list st) @ [Close kq]"

text \<open>The loop and the teardown, from a given state of the relay.\<close>

definition udp_loop ::
  "platform \<Rightarrow> fd \<Rightarrow> fd \<Rightarrow> fd \<Rightarrow> udp_state \<Rightarrow> udp_ready kevent_result list
     \<Rightarrow> action list \<times> outcome" where
  "udp_loop P tcp_fd udp_fd kq st ks =
     (case udp_rounds P tcp_fd udp_fd st ks of
        (tr, st', Return) \<Rightarrow> (tr @ udp_teardown kq st', Return)
      | (tr, st', r) \<Rightarrow> (tr, r))"

text \<open>
  \<open>copy_loop_udp\<close> (lines 428--629): \<open>ul_kq\<close> is the result of \<open>kqueue()\<close>, \<open>ul_register\<close>
  tells whether the first \<open>kevent\<close> call succeeds, \<open>ul_bound\<close> whether \<open>getpeername\<close> finds
  the UDP socket connected (when it fails it does so with \<open>ENOTCONN\<close>).
\<close>

record udp_io =
  ul_kq :: int
  ul_register :: bool
  ul_bound :: bool
  ul_rounds :: "udp_ready kevent_result list"

definition copy_loop_udp :: "platform \<Rightarrow> fd \<Rightarrow> fd \<Rightarrow> udp_io \<Rightarrow> action list \<times> outcome" where
  "copy_loop_udp P tcp_fd udp_fd io =
     (if ul_kq io = -1 then ([], Return)
      else if \<not> ul_register io then
        ([Register [tcp_fd, udp_fd] False, Close (ul_kq io)], Return)
      else case udp_loop P tcp_fd udp_fd (ul_kq io)
                  \<lparr>udp_is_bound = ul_bound io, sock_list = []\<rparr> (ul_rounds io) of
             (tr, r) \<Rightarrow> (Register [tcp_fd, udp_fd] True # tr, r))"

section \<open>Session\<close>

text \<open>The \<open>errno\<close> values that the code tells apart; \<open>EOTHER\<close> is any other value.\<close>

datatype errno =
    ETIMEDOUT | EPROTOTYPE | EPROTONOSUPPORT | EAFNOSUPPORT | ECONNREFUSED
  | ENETDOWN | ENETUNREACH | EHOSTUNREACH | EBADF | EOTHER

text \<open>The \<open>switch(errno)\<close> of \<open>connect_socks_target\<close> and \<open>udp_svc_setup\<close>.\<close>

fun eval_errno :: "errno \<Rightarrow> errorcode" where
  "eval_errno ETIMEDOUT = EC_TTL_EXPIRED"
| "eval_errno EPROTOTYPE = EC_ADDRESSTYPE_NOT_SUPPORTED"
| "eval_errno EPROTONOSUPPORT = EC_ADDRESSTYPE_NOT_SUPPORTED"
| "eval_errno EAFNOSUPPORT = EC_ADDRESSTYPE_NOT_SUPPORTED"
| "eval_errno ECONNREFUSED = EC_CONN_REFUSED"
| "eval_errno ENETDOWN = EC_NET_UNREACHABLE"
| "eval_errno ENETUNREACH = EC_NET_UNREACHABLE"
| "eval_errno EHOSTUNREACH = EC_HOST_UNREACHABLE"
| "eval_errno EBADF = EC_GENERAL_FAILURE"
| "eval_errno EOTHER = EC_GENERAL_FAILURE"

text \<open>A reply code as the \<open>int\<close> that the functions return negated.\<close>

definition ec_int :: "errorcode \<Rightarrow> int" where
  "ec_int e = uint (ec_code e)"

text \<open>
  \<open>connect_socks_target\<close> (lines 190--230), with the results of \<open>socket\<close> and \<open>connect\<close> and
  the \<open>errno\<close> of the failing call. The result is the descriptor or the negated reply code.
\<close>

record connect_io =
  c_socket :: int
  c_connect_ok :: bool
  c_errno :: errno

definition connect_socks_target :: "connect_io \<Rightarrow> sockaddr \<Rightarrow> action list \<times> int" where
  "connect_socks_target io remote_addr =
     (let f = c_socket io in
      if f = -1 then ([Socket f], - ec_int (eval_errno (c_errno io)))
      else if \<not> c_connect_ok io then
        ([Socket f, Connect f remote_addr False, Close f], - ec_int (eval_errno (c_errno io)))
      else ([Socket f, Connect f remote_addr True], f))"

text \<open>
  \<open>udp_svc_setup\<close> (lines 652--705), with the results of \<open>socket\<close>, \<open>connect\<close>,
  \<open>getaddrinfo\<close> and \<open>bind\<close>.
\<close>

record setup_io =
  s_socket :: int
  s_errno :: errno
  s_connect_ok :: bool
  s_getaddrinfo :: int
  s_bind_ok :: bool

definition udp_svc_setup :: "setup_io \<Rightarrow> sockaddr \<Rightarrow> action list \<times> int" where
  "udp_svc_setup io client_addr =
     (let f = s_socket io in
      if f = -1 then ([Socket f], - ec_int (eval_errno (s_errno io)))
      else
        let af = sa_family client_addr in
        if (af = AF_INET \<and> take 4 (sa_addr client_addr) \<noteq> replicate 4 0)
           \<or> (af = AF_INET6 \<and> take 16 (sa_addr client_addr) \<noteq> replicate 16 0)
        then
          (if \<not> s_connect_ok io then ([Socket f, Connect f client_addr False], -1)
           else ([Socket f, Connect f client_addr True], f))
        else if s_getaddrinfo io \<noteq> 0 then ([Socket f], s_getaddrinfo io)
        else if \<not> s_bind_ok io then ([Socket f, Bind f False], -1)
        else ([Socket f, Bind f True], f))"

text \<open>\<open>send_auth_response\<close> (lines 281--286) and \<open>send_response\<close> (lines 288--311).\<close>

definition send_auth_response :: "fd \<Rightarrow> byte \<Rightarrow> byte \<Rightarrow> int \<Rightarrow> action list" where
  "send_auth_response f version meth r = [Write f [version, meth] r]"

definition response_bytes :: "errorcode \<Rightarrow> sockaddr \<Rightarrow> bytes" where
  "response_bytes ec addr =
     (case sa_family addr of
        AF_INET \<Rightarrow>
          [5, ec_code ec, 0, atyp_code SOCKS5_IPV4] @ take 4 (sa_addr addr)
            @ port_bytes (sa_port addr)
      | AF_INET6 \<Rightarrow>
          [5, ec_code ec, 0, atyp_code SOCKS5_IPV6] @ take 16 (sa_addr addr)
            @ port_bytes (sa_port addr))"

definition send_response :: "fd \<Rightarrow> errorcode \<Rightarrow> sockaddr \<Rightarrow> int \<Rightarrow> action list" where
  "send_response f ec addr r = [Write f (response_bytes ec addr) r]"

text \<open>
  The whitelist update of \<open>clientthread\<close> (lines 742--746), the \<open>rememberClient\<close> of the
  specification: under the write lock, the client's address is added unless
  \<open>is_in_authed_list\<close> finds its IP. \<open>wrlock\<close> tells whether \<open>pthread_rwlock_wrlock\<close>
  succeeds. \<open>add_auth_ip\<close> is lines 251--253.
\<close>

definition add_auth_ip :: "sockaddr \<Rightarrow> sockaddr list \<Rightarrow> sockaddr list" where
  "add_auth_ip caddr ips = sblist_add ips caddr"

definition remember_client :: "bool \<Rightarrow> sockaddr \<Rightarrow> config \<Rightarrow> config" where
  "remember_client wrlock caddr cfg =
     (case auth_ips cfg of
        None \<Rightarrow> cfg
      | Some ips \<Rightarrow>
          if wrlock then
            (if \<not> is_in_authed_list caddr ips
             then cfg\<lparr>auth_ips := Some (add_auth_ip caddr ips)\<rparr> else cfg)
          else cfg)"

datatype socksstate = SS_1_CONNECTED | SS_2_NEED_AUTH | SS_3_AUTHED

text \<open>
  What a session works on: its state tag and the two process-wide values it can change,
  the authentication settings and the traffic counters.
\<close>

record session =
  ss_state :: socksstate
  ss_config :: config
  ss_traffic :: traffic

text \<open>
  The results of the calls made while one received message is handled: the two lock
  acquisitions, the \<open>write\<close> of the reply, and the calls of the CONNECT and UDP ASSOCIATE
  branches (\<open>r_sockname\<close> is the address \<open>getsockname\<close> stores, \<open>None\<close> when it fails).
\<close>

record request_io =
  r_rdlock :: "nat \<Rightarrow> bool"
  r_wrlock :: bool
  r_write :: int
  r_connect :: connect_io
  r_sockname :: "sockaddr option"
  r_copy :: copy_io
  r_setup :: setup_io
  r_udp :: udp_io

text \<open>The case \<open>SS_1_CONNECTED\<close> of \<open>clientthread\<close> (lines 729--735).\<close>

definition step_connected ::
  "fd \<Rightarrow> sockaddr \<Rightarrow> request_io \<Rightarrow> bytes \<Rightarrow> session \<Rightarrow> action list \<times> session \<times> outcome" where
  "step_connected cfd caddr io buf t =
     (let am = check_auth_method (ss_config t) (r_rdlock io) caddr buf;
          t' = (if am = AM_NO_AUTH then t\<lparr>ss_state := SS_3_AUTHED\<rparr>
                else if am = AM_USERNAME then t\<lparr>ss_state := SS_2_NEED_AUTH\<rparr>
                else t)
      in (send_auth_response cfd 5 (am_code am) (r_write io), t',
          if am = AM_INVALID then Return else Continue))"

text \<open>
  The case \<open>SS_2_NEED_AUTH\<close> (lines 736--747). The state is entered only when \<open>auth_user\<close>
  is set, and \<open>socks_main\<close> refuses \<open>auth_user\<close> without \<open>auth_pass\<close>; \<open>strcmp\<close> with a \<open>NULL\<close>
  pointer is \<open>Abort\<close>.
\<close>

definition step_need_auth ::
  "fd \<Rightarrow> sockaddr \<Rightarrow> request_io \<Rightarrow> bytes \<Rightarrow> session \<Rightarrow> action list \<times> session \<times> outcome" where
  "step_need_auth cfd caddr io buf t =
     (case (auth_user (ss_config t), auth_pass (ss_config t)) of
        (Some au, Some ap) \<Rightarrow>
          (let ret = check_credentials au ap buf in
           if ret \<noteq> EC_SUCCESS then
             (send_auth_response cfd 1 (ec_code ret) (r_write io), t, Return)
           else
             (send_auth_response cfd 1 (ec_code ret) (r_write io),
              t\<lparr>ss_state := SS_3_AUTHED,
                ss_config := remember_client (r_wrlock io) caddr (ss_config t)\<rparr>,
              Continue))
      | _ \<Rightarrow> ([Abort], t, Return))"

text \<open>
  The case \<open>SS_3_AUTHED\<close> (lines 748--804). The branches for the two commands are
  \<open>request_connect\<close> (lines 756--771) and \<open>request_udp_associate\<close> (lines 772--800).
\<close>

definition request_connect ::
  "fd \<Rightarrow> request_io \<Rightarrow> sockaddr \<Rightarrow> session \<Rightarrow> action list \<times> session \<times> outcome" where
  "request_connect cfd io address t =
     (case connect_socks_target (r_connect io) address of
        (tr, ret) \<Rightarrow>
          if ret < 0 then (tr @ send_error cfd (ret * -1) (r_write io), t, Return)
          else
            (let remotefd = ret in
             case r_sockname io of
               None \<Rightarrow> (tr, t, Return)
             | Some local_addr \<Rightarrow>
                 if r_write io = -1 then
                   (tr @ send_response cfd EC_SUCCESS local_addr (r_write io)
                      @ [Close remotefd], t, Return)
                 else
                   (case copyloop cfd remotefd (r_copy io) (ss_traffic t) of
                      (ctr, s', Blocked) \<Rightarrow>
                        (tr @ send_response cfd EC_SUCCESS local_addr (r_write io) @ ctr,
                         t\<lparr>ss_traffic := s'\<rparr>, Blocked)
                    | (ctr, s', r) \<Rightarrow>
                        (tr @ send_response cfd EC_SUCCESS local_addr (r_write io) @ ctr
                           @ [Close remotefd],
                         t\<lparr>ss_traffic := s'\<rparr>, Return))))"

definition request_udp_associate ::
  "platform \<Rightarrow> fd \<Rightarrow> request_io \<Rightarrow> sockaddr \<Rightarrow> session
     \<Rightarrow> action list \<times> session \<times> outcome" where
  "request_udp_associate P cfd io address t =
     (case udp_svc_setup (r_setup io) address of
        (tr, f) \<Rightarrow>
          if f \<le> 0 then (tr @ send_error cfd (f * -1) (r_write io), t, Return)
          else
            (case r_sockname io of
               None \<Rightarrow> (tr, t, Return)
             | Some local_addr \<Rightarrow>
                 if r_write io = -1 then
                   (tr @ send_response cfd EC_SUCCESS local_addr (r_write io) @ [Close f],
                    t, Return)
                 else
                   (case copy_loop_udp P cfd f (r_udp io) of
                      (utr, Blocked) \<Rightarrow>
                        (tr @ send_response cfd EC_SUCCESS local_addr (r_write io) @ utr,
                         t, Blocked)
                    | (utr, r) \<Rightarrow>
                        (tr @ send_response cfd EC_SUCCESS local_addr (r_write io) @ utr
                           @ [Close f],
                         t, Return))))"

definition step_authed ::
  "platform \<Rightarrow> fd \<Rightarrow> request_io \<Rightarrow> bytes \<Rightarrow> session \<Rightarrow> action list \<times> session \<times> outcome" where
  "step_authed P cfd io buf t =
     (case parse_socks_request_header P buf of
        Inl ret \<Rightarrow> ([], t, Return)
      | Inr (cmd, address) \<Rightarrow>
          (case cmd of
             CONNECT \<Rightarrow> request_connect cfd io address t
           | UDP_ASSOCIATE \<Rightarrow> request_udp_associate P cfd io address t))"

text \<open>The \<open>switch\<close> of \<open>clientthread\<close> for one received message (lines 728--805).\<close>

definition client_step ::
  "platform \<Rightarrow> fd \<Rightarrow> sockaddr \<Rightarrow> request_io \<Rightarrow> bytes \<Rightarrow> session
     \<Rightarrow> action list \<times> session \<times> outcome" where
  "client_step P cfd caddr io buf t =
     (case ss_state t of
        SS_1_CONNECTED \<Rightarrow> step_connected cfd caddr io buf t
      | SS_2_NEED_AUTH \<Rightarrow> step_need_auth cfd caddr io buf t
      | SS_3_AUTHED \<Rightarrow> step_authed P cfd io buf t)"

text \<open>
  The \<open>while\<close> loop of \<open>clientthread\<close> (lines 727--806) over the messages that the
  successive \<open>recv\<close> calls store, each with the results of the calls made for it. The end
  of the list, or an empty message, is the \<open>recv\<close> that returns 0 or \<open>-1\<close>.
\<close>

fun client_rounds ::
  "platform \<Rightarrow> fd \<Rightarrow> sockaddr \<Rightarrow> session \<Rightarrow> (bytes \<times> request_io) list
     \<Rightarrow> action list \<times> session \<times> outcome" where
  "client_rounds P cfd caddr t [] = ([], t, Return)"
| "client_rounds P cfd caddr t ((buf, io) # ms) =
     (if buf = [] then ([], t, Return)
      else case client_step P cfd caddr io buf t of
             (tr, t', Continue) \<Rightarrow>
               (case client_rounds P cfd caddr t' ms of (tr', r) \<Rightarrow> (Recv cfd buf # tr @ tr', r))
           | (tr, t', r) \<Rightarrow> (Recv cfd buf # tr, t', r))"

text \<open>
  \<open>clientthread\<close> (lines 707--814): the loop from the state \<open>SS_1_CONNECTED\<close>, then the
  code at \<open>breakloop\<close>, which closes the client socket.
\<close>

definition clientthread ::
  "platform \<Rightarrow> fd \<Rightarrow> sockaddr \<Rightarrow> config \<Rightarrow> traffic \<Rightarrow> (bytes \<times> request_io) list
     \<Rightarrow> action list \<times> session \<times> outcome" where
  "clientthread P cfd caddr cfg s ms =
     (case client_rounds P cfd caddr
             \<lparr>ss_state = SS_1_CONNECTED, ss_config = cfg, ss_traffic = s\<rparr> ms of
        (tr, t, Blocked) \<Rightarrow> (tr, t, Blocked)
      | (tr, t, r) \<Rightarrow> (tr @ [Close cfd], t, Return))"

section \<open>Well-formed addresses\<close>

text \<open>
  The layout of an address on the wire in the words of the specification: a type byte 1, 3
  or 4; then 4 or 16 raw bytes, or a length byte and that many name bytes; then two port
  bytes.
\<close>

definition address_layout_ok :: "bytes \<Rightarrow> bool" where
  "address_layout_ok b =
     (2 \<le> length b \<and>
      ((b ! 0 = 1 \<and> 1 + 4 + 2 \<le> length b)
       \<or> (b ! 0 = 4 \<and> 1 + 16 + 2 \<le> length b)
       \<or> (b ! 0 = 3 \<and> 1 + 1 + unat (b ! 1) + 2 \<le> length b)))"

text \<open>
  The address records whose text the code can read back: no NUL inside, at most
  \<open>MAX_DNS_LEN\<close> bytes, and for the two IP types the text that \<open>inet_ntop\<close> prints for the
  raw bytes that \<open>inet_pton\<close> reads from it.
\<close>

definition wf_addrport :: "platform \<Rightarrow> socks5_addrport \<Rightarrow> bool" where
  "wf_addrport P x =
     (0 \<notin> set (ap_addr x) \<and> length (ap_addr x) \<le> MAX_DNS_LEN \<and>
      (case ap_type x of
         SOCKS5_DNS \<Rightarrow> True
       | SOCKS5_IPV4 \<Rightarrow>
           (case inet_pton P AF_INET (ap_addr x) of
              None \<Rightarrow> False
            | Some raw \<Rightarrow> length raw = 4 \<and> inet_ntop P AF_INET raw = Some (ap_addr x))
       | SOCKS5_IPV6 \<Rightarrow>
           (case inet_pton P AF_INET6 (ap_addr x) of
              None \<Rightarrow> False
            | Some raw \<Rightarrow> length raw = 16 \<and> inet_ntop P AF_INET6 raw = Some (ap_addr x))))"

section \<open>Concrete inputs\<close>

text \<open>
  A concrete platform on which the model can be run: a host without IPv6 support. For
  \<open>AF_INET\<close>, \<open>inet_ntop\<close> prints the dotted-decimal text of four bytes and \<open>inet_pton\<close> reads
  it back; for \<open>AF_INET6\<close> both calls fail. The resolver knows IPv4 literals and the name
  \<open>localhost\<close>.
\<close>

definition dec_text :: "byte \<Rightarrow> bytes" where
  "dec_text b =
     (let n = unat b;
          d = (\<lambda>k. of_nat (48 + k) :: byte)
      in if n < 10 then [d n]
         else if n < 100 then [d (n div 10), d (n mod 10)]
         else [d (n div 100), d (n div 10 mod 10), d (n mod 10)])"

fun join_with :: "byte \<Rightarrow> bytes list \<Rightarrow> bytes" where
  "join_with sep [] = []"
| "join_with sep [p] = p"
| "join_with sep (p # q # ps) = p @ sep # join_with sep (q # ps)"

fun split_on :: "byte \<Rightarrow> bytes \<Rightarrow> bytes list" where
  "split_on sep [] = [[]]"
| "split_on sep (c # cs) =
     (if c = sep then [] # split_on sep cs
      else case split_on sep cs of
             [] \<Rightarrow> [[c]]
           | p # ps \<Rightarrow> (c # p) # ps)"

definition dec_value :: "bytes \<Rightarrow> nat option" where
  "dec_value t =
     (if t = [] \<or> 3 < length t \<or> list_ex (\<lambda>c. c < 48 \<or> 57 < c) t
         \<or> (1 < length t \<and> hd t = 48)
      then None
      else let v = foldl (\<lambda>acc c. 10 * acc + (unat c - 48)) 0 t
           in if v \<le> 255 then Some v else None)"

definition sample_ntop :: "af \<Rightarrow> bytes \<Rightarrow> bytes option" where
  "sample_ntop family raw =
     (case family of
        AF_INET \<Rightarrow> if length raw = 4 then Some (join_with 0x2E (map dec_text raw)) else None
      | AF_INET6 \<Rightarrow> None)"

definition sample_pton :: "af \<Rightarrow> bytes \<Rightarrow> bytes option" where
  "sample_pton family txt =
     (case family of
        AF_INET \<Rightarrow>
          (let parts = map dec_value (split_on 0x2E txt)
           in if length parts = 4 \<and> list_all (\<lambda>v. v \<noteq> None) parts
              then Some (map (\<lambda>v. of_nat (the v)) parts) else None)
      | AF_INET6 \<Rightarrow> None)"

text \<open>The host name \<open>localhost\<close> in ASCII.\<close>

definition localhost_name :: bytes where
  "localhost_name = [0x6C, 0x6F, 0x63, 0x61, 0x6C, 0x68, 0x6F, 0x73, 0x74]"

definition sample_resolve :: "socks5_socket_type \<Rightarrow> bytes \<Rightarrow> 16 word \<Rightarrow> sockaddr option" where
  "sample_resolve stype host port =
     (case sample_pton AF_INET host of
        Some raw \<Rightarrow> Some \<lparr>sa_family = AF_INET, sa_addr = raw, sa_port = port\<rparr>
      | None \<Rightarrow>
          if host = localhost_name
          then Some \<lparr>sa_family = AF_INET, sa_addr = [127, 0, 0, 1], sa_port = port\<rparr>
          else None)"

definition sample_platform :: platform where
  "sample_platform =
     \<lparr>inet_ntop = sample_ntop, inet_pton = sample_pton, resolve = sample_resolve\<rparr>"

text \<open>The text \<open>127.0.0.1\<close> in ASCII.\<close>

definition loopback_text :: bytes where
  "loopback_text = [0x31, 0x32, 0x37, 0x2E, 0x30, 0x2E, 0x30, 0x2E, 0x31]"

text \<open>A client address and a configuration with credentials and a whitelist holding it.\<close>

definition sample_client :: sockaddr where
  "sample_client = \<lparr>sa_family = AF_INET, sa_addr = [192, 0, 2, 7], sa_port = 40000\<rparr>"

definition sample_config :: config where
  "sample_config =
     \<lparr>auth_user = Some [0x61], auth_pass = Some [0x62], auth_ips = Some [sample_client]\<rparr>"

text \<open>
  Two runs of the TCP relay between client socket 3 and target socket 4, on queue 9. In the
  first, three bytes from the client are written in pieces of two, zero and one bytes, and
  then two bytes from the target in one piece. In the second, the write of the bytes read
  from the client fails.
\<close>

definition sample_copy_io :: copy_io where
  "sample_copy_io =
     \<lparr>cl_kq = 9, cl_register = True,
      cl_rounds =
        [KReady [\<lparr>ev_ident = 3, ev_readable = True, ev_rd = [1, 2, 3], ev_wr = [2, 0, 1]\<rparr>],
         KAgain,
         KReady [\<lparr>ev_ident = 4, ev_readable = True, ev_rd = [7, 8], ev_wr = [2]\<rparr>]]\<rparr>"


text \<open>
  A configuration without credentials, one with credentials and an empty whitelist, a
  second connection from the IP of \<open>sample_client\<close>, and counters at zero.
\<close>

definition open_config :: config where
  "open_config = \<lparr>auth_user = None, auth_pass = None, auth_ips = None\<rparr>"



definition zero_traffic :: traffic where
  "zero_traffic = \<lparr>total_upload_bytes = 0, total_download_bytes = 0\<rparr>"

text \<open>
  UDP relay inputs: a datagram for 127.0.0.1 port 53 with two payload bytes, a datagram
  for the name \<open>xxxxx\<close>, which the sample resolver does not know, the addresses they
  carry, a ready event of the client's UDP socket 5 on which every call succeeds, and a
  relay state with one flow.
\<close>

definition dns_datagram :: bytes where
  "dns_datagram = [0, 0, 0, 1, 127, 0, 0, 1, 0, 53, 0xAA, 0xBB]"

definition lost_datagram :: bytes where
  "lost_datagram = [0, 0, 0, 3, 5, 0x78, 0x78, 0x78, 0x78, 0x78, 0, 53, 0xCC]"

definition sample_flow :: socks5_addrport where
  "sample_flow = \<lparr>ap_type = SOCKS5_IPV4, ap_addr = loopback_text, ap_port = 53\<rparr>"

definition lost_flow :: socks5_addrport where
  "lost_flow = \<lparr>ap_type = SOCKS5_DNS, ap_addr = [0x78, 0x78, 0x78, 0x78, 0x78], ap_port = 53\<rparr>"

definition sample_udp_ready :: udp_ready where
  "sample_udp_ready =
     \<lparr>u_ident = 5, u_tcp_read = IoError, u_udp_recv = IoData dns_datagram,
      u_peer = sample_client, u_pin_ok = True, u_socket = 6, u_connect_ok = True,
      u_register_ok = True, u_send = 2, u_error_write = 10, u_target_recv = [],
      u_reply_write = 0\<rparr>"

definition one_flow :: udp_state where
  "one_flow = \<lparr>udp_is_bound = True,
               sock_list = [\<lparr>item_fd = 6, item_addrport = sample_flow\<rparr>]\<rparr>"

definition sample_udp_io :: udp_io where
  "sample_udp_io = \<lparr>ul_kq = 9, ul_register = True, ul_bound = False,
                    ul_rounds = [KReady [sample_udp_ready]]\<rparr>"

text \<open>
  The results of the calls of one request: every call succeeds, except that the \<open>connect\<close>
  to the target of a CONNECT request is refused.
\<close>

definition sample_request_io :: request_io where
  "sample_request_io =
     \<lparr>r_rdlock = (\<lambda>i. True), r_wrlock = True, r_write = 10,
      r_connect = \<lparr>c_socket = 4, c_connect_ok = False, c_errno = ECONNREFUSED\<rparr>,
      r_sockname = Some \<lparr>sa_family = AF_INET, sa_addr = [192, 0, 2, 1], sa_port = 50000\<rparr>,
      r_copy = sample_copy_io,
      r_setup = \<lparr>s_socket = 5, s_errno = EOTHER, s_connect_ok = True, s_getaddrinfo = 0,
                 s_bind_ok = True\<rparr>,
      r_udp = sample_udp_io\<rparr>"

section \<open>Basic facts\<close>

lemma strcmp_c_str: "strcmp a b = 0 \<longleftrightarrow> c_str a = c_str b"
  by (induction a b rule: strcmp.induct) (auto simp: c_str_def)

lemma c_str_append_nul: "c_str (m @ [0]) = c_str m"
  by (induction m) (auto simp: c_str_def)

lemma c_str_id: "0 \<notin> set m \<Longrightarrow> c_str m = m"
  by (induction m) (auto simp: c_str_def)

lemma unat_of_nat_byte: "n \<le> 255 \<Longrightarrow> unat (of_nat n :: byte) = n"
  by (simp add: unat_of_nat)

lemma port_roundtrip:
  "push_bit 8 (ucast (ucast (drop_bit 8 p) :: byte)) OR ucast (ucast (p AND 0xFF) :: byte)
     = (p :: 16 word)"
proof -
  have m: "(0xFF :: 16 word) = mask 8" by (simp add: mask_eq_decr_exp)
  show ?thesis
    unfolding m by (rule bit_word_eqI) (auto simp: bit_simps)
qed

lemma sample_ntop_loopback: "sample_ntop AF_INET [127, 0, 0, 1] = Some loopback_text"
  by (simp add: sample_ntop_def dec_text_def loopback_text_def)

lemma sample_pton_loopback: "sample_pton AF_INET loopback_text = Some [127, 0, 0, 1]"
  by (simp add: sample_pton_def dec_value_def loopback_text_def)

lemma c_str_loopback: "c_str loopback_text = loopback_text"
  by (simp add: c_str_def loopback_text_def)

lemma parse_loopback:
  "parse_addrport sample_platform ([1, 127, 0, 0, 1, 0, 80] @ rest) =
     Inr (\<lparr>ap_type = SOCKS5_IPV4, ap_addr = loopback_text, ap_port = 80\<rparr>, 7)"
  by (simp add: parse_addrport_def parse_ip_def sample_platform_def sample_ntop_loopback
      addrport_of_def strncpy_def c_str_append_nul c_str_loopback MAX_DNS_LEN_def)
     (simp add: loopback_text_def)

lemma extract_dns_datagram:
  "extract_udp_data sample_platform dns_datagram = Inr (sample_flow, 10)"
  by (simp add: extract_udp_data_def dns_datagram_def sample_flow_def parse_addrport_def
      parse_ip_def sample_platform_def sample_ntop_loopback addrport_of_def strncpy_def
      c_str_append_nul c_str_loopback MAX_DNS_LEN_def)
     (simp add: loopback_text_def)

lemma extract_lost_datagram:
  "extract_udp_data sample_platform lost_datagram = Inr (lost_flow, 12)"
  by (simp add: extract_udp_data_def lost_datagram_def lost_flow_def parse_addrport_def
      addrport_of_def strncpy_def c_str_def MAX_DNS_LEN_def)

lemma resolve_sample_flow:
  "resolve sample_platform UDP_SOCKET (c_str (ap_addr sample_flow)) (ap_port sample_flow) =
     Some \<lparr>sa_family = AF_INET, sa_addr = [127, 0, 0, 1], sa_port = 53\<rparr>"
  by (simp add: sample_platform_def sample_resolve_def sample_flow_def c_str_loopback
      sample_pton_loopback)

lemma resolve_lost_flow:
  "resolve sample_platform UDP_SOCKET (c_str (ap_addr lost_flow)) (ap_port lost_flow) = None"
  by (simp add: sample_platform_def sample_resolve_def lost_flow_def c_str_def
      sample_pton_def dec_value_def localhost_name_def)


lemma compare_lost_flow: "\<not> compareSocks5Addrport lost_flow sample_flow"
  by (simp add: compareSocks5Addrport_def lost_flow_def sample_flow_def)

section \<open>Credentials\<close>

lemma cred_frame_eval:
  assumes "length user \<le> 255" "length pass \<le> 255"
  shows "check_credentials au ap (cred_frame user pass @ rest) =
     (if length pass + length rest = 0 \<or> length user + length pass + length rest < 2
      then EC_GENERAL_FAILURE
      else if c_str user = c_str au \<and> c_str pass = c_str ap then EC_SUCCESS else EC_NOT_ALLOWED)"
proof -
  let ?buf = "cred_frame user pass @ rest"
  have n: "length ?buf = 3 + length user + length pass + length rest"
    by (simp add: cred_frame_def)
  have b0: "?buf ! 0 = 1" by (simp add: cred_frame_def)
  have b1: "unat (?buf ! 1) = length user"
    using assms(1) by (simp add: cred_frame_def unat_of_nat_byte)
  have bp: "length pass + length rest > 0 \<Longrightarrow> unat (?buf ! (2 + length user)) = length pass"
    using assms(2) by (simp add: cred_frame_def nth_append unat_of_nat_byte)
  have u: "take (length user) (drop 2 ?buf) = user"
    by (simp add: cred_frame_def)
  have p: "take (length pass) (drop (2 + length user + 1) ?buf) = pass"
    by (simp add: cred_frame_def)
  show ?thesis
    unfolding check_credentials_def Let_def n b0 b1
    using bp u p
    by (auto simp: strcmp_c_str c_str_append_nul)
qed


lemma truncated_frame_fails:
  assumes "length user \<le> 255" "length pass \<le> 255" "k < 3 + length user + length pass"
  shows "check_credentials au ap (take k (cred_frame user pass)) = EC_GENERAL_FAILURE"
proof -
  let ?F = "cred_frame user pass"
  let ?buf = "take k ?F"
  have lenF: "length ?F = 3 + length user + length pass" by (simp add: cred_frame_def)
  have n: "length ?buf = k" using assms(3) lenF by simp
  show ?thesis
  proof (cases "k < 5")
    case True
    then show ?thesis unfolding check_credentials_def Let_def n by simp
  next
    case k5: False
    have b1: "unat (?buf ! 1) = length user"
      using k5 assms(1) by (simp add: cred_frame_def unat_of_nat_byte)
    show ?thesis
    proof (cases "k < 2 + length user + 2")
      case True
      then show ?thesis unfolding check_credentials_def Let_def n b1 by simp
    next
      case False
      then have "?buf ! (2 + length user) = ?F ! (2 + length user)" by simp
      also have "\<dots> = of_nat (length pass)" by (simp add: cred_frame_def nth_append)
      finally have bp: "unat (?buf ! (2 + length user)) = length pass"
        using assms(2) by (simp add: unat_of_nat_byte)
      show ?thesis unfolding check_credentials_def Let_def n b1 bp using assms(3) by simp
    qed
  qed
qed

text \<open>
  C2. The claim is that the comparison with the configured credentials is byte-exact. The
  code compares with \<open>strcmp\<close>: on a frame that passes the length checks the result is
  \<open>EC_SUCCESS\<close> exactly when the offered user name and password, each cut at its first
  NUL byte, are the configured strings, and \<open>EC_NOT_ALLOWED\<close> otherwise. For offered and
  configured strings without NUL bytes this is equality of the byte sequences.
\<close>

theorem check_credentials_cstring_match:
  assumes "length user \<le> 255" and "1 \<le> length pass" and "length pass \<le> 255"
    and "2 \<le> length user + length pass"
  shows "(check_credentials au ap (cred_frame user pass) = EC_SUCCESS
            \<longleftrightarrow> c_str user = c_str au \<and> c_str pass = c_str ap)
       \<and> (0 \<notin> set user \<and> 0 \<notin> set pass \<and> 0 \<notin> set au \<and> 0 \<notin> set ap \<longrightarrow>
            (check_credentials au ap (cred_frame user pass) = EC_SUCCESS
               \<longleftrightarrow> user = au \<and> pass = ap))
       \<and> (check_credentials au ap (cred_frame user pass) \<noteq> EC_SUCCESS \<longrightarrow>
            check_credentials au ap (cred_frame user pass) = EC_NOT_ALLOWED)"
  using assms cred_frame_eval [of user pass au ap "[]"]
  by (auto simp: c_str_id)

theorem check_credentials_cstring_match_witness:
  "length [0x61, 0x6C :: byte] \<le> 255 \<and> 1 \<le> length [0x70 :: byte]
   \<and> length [0x70 :: byte] \<le> 255 \<and> 2 \<le> length [0x61, 0x6C :: byte] + length [0x70 :: byte]
   \<and> check_credentials [0x61, 0x6C] [0x70] (cred_frame [0x61, 0x6C] [0x70]) = EC_SUCCESS
   \<and> check_credentials [0x61, 0x6C] [0x70] (cred_frame [0x61, 0x6D] [0x70]) = EC_NOT_ALLOWED"
  using check_credentials_cstring_match [of "[0x61, 0x6C]" "[0x70]" "[0x61, 0x6C]" "[0x70]"]
    check_credentials_cstring_match [of "[0x61, 0x6D]" "[0x70]" "[0x61, 0x6C]" "[0x70]"]
  by (simp add: c_str_def)

text \<open>
  The claim of C2 as stated fails: with the configured pair (\<open>a\<close>, \<open>b\<close>) the offered user name
  \<open>a\<close>, NUL, \<open>x\<close> is accepted although it differs from \<open>a\<close>; and an offered empty password
  is rejected by the length checks even when the configured password is empty.
\<close>

theorem check_credentials_not_byte_exact:
  "check_credentials [0x61] [0x62] (cred_frame [0x61, 0, 0x78] [0x62]) = EC_SUCCESS
   \<and> [0x61, 0, 0x78] \<noteq> ([0x61] :: bytes)
   \<and> check_credentials [0x61, 0x62] [] (cred_frame [0x61, 0x62] []) = EC_GENERAL_FAILURE"
  by (simp add: check_credentials_def cred_frame_def)

text \<open>
  C3. The length checks of \<open>check_credentials\<close>. A frame \<open>01, ulen, user, plen, pass\<close>
  followed by any bytes \<open>rest\<close> is rejected with \<open>EC_GENERAL_FAILURE\<close> exactly when no byte
  follows the \<open>plen\<close> byte or the whole input has fewer than 5 bytes; so every frame with
  \<open>ulen\<close> and \<open>plen\<close> in 1..255 passes, and every proper prefix of a frame is rejected.
\<close>

theorem check_credentials_parse:
  assumes "length user \<le> 255" and "length pass \<le> 255"
  shows "(check_credentials au ap (cred_frame user pass @ rest) = EC_GENERAL_FAILURE
            \<longleftrightarrow> length pass + length rest = 0 \<or> length user + length pass + length rest < 2)
       \<and> (1 \<le> length user \<and> 1 \<le> length pass \<longrightarrow>
            check_credentials au ap (cred_frame user pass @ rest) \<noteq> EC_GENERAL_FAILURE)
       \<and> (\<forall>k. k < 3 + length user + length pass \<longrightarrow>
            check_credentials au ap (take k (cred_frame user pass)) = EC_GENERAL_FAILURE)"
  using assms cred_frame_eval [of user pass au ap rest] truncated_frame_fails [of user pass _ au ap]
  by auto

theorem check_credentials_parse_witness:
  "length [0x61 :: byte] \<le> 255 \<and> length [0x62 :: byte] \<le> 255
   \<and> check_credentials [0x61] [0x62] (cred_frame [0x61] [0x62] @ []) \<noteq> EC_GENERAL_FAILURE
   \<and> check_credentials [0x61] [0x62] (take 4 (cred_frame [0x61] [0x62])) = EC_GENERAL_FAILURE"
  using check_credentials_parse [of "[0x61]" "[0x62]" "[0x61]" "[0x62]" "[]"]
  by simp

text \<open>
  The claim of C3 as stated fails where \<open>plen = 0\<close> or \<open>ulen + plen < 2\<close>: such frames are laid
  out as the claim says and are rejected.
\<close>

theorem check_credentials_rejects_empty_password:
  "check_credentials [0x61] [] (cred_frame [0x61] []) = EC_GENERAL_FAILURE
   \<and> check_credentials [] [] (cred_frame [] []) = EC_GENERAL_FAILURE
   \<and> check_credentials [] [0x62] (cred_frame [] [0x62]) = EC_GENERAL_FAILURE
   \<and> check_credentials [0x61, 0x62, 0x63] [] (cred_frame [0x61, 0x62, 0x63] []) = EC_GENERAL_FAILURE"
  by (simp add: check_credentials_def cred_frame_def)

section \<open>Method selection\<close>

lemma auth_method_loop_whitelisted:
  assumes "auth_user cfg \<noteq> None" and "auth_ips cfg = Some ips"
    and "is_in_authed_list client ips" and "\<forall>i. rdlock i"
  shows "auth_method_loop cfg rdlock client buf idx k =
     (case find (\<lambda>m. m = 0 \<or> m = 2) (take k (drop idx buf)) of
        None \<Rightarrow> AM_INVALID
      | Some m \<Rightarrow> if m = 0 then AM_NO_AUTH else AM_USERNAME)"
proof (induction k arbitrary: idx)
  case 0
  then show ?case by (simp add: auth_method_loop.simps)
next
  case (Suc k)
  show ?case
  proof (cases "idx < length buf")
    case False
    then show ?thesis by (simp add: auth_method_loop.simps)
  next
    case True
    then have split: "take (Suc k) (drop idx buf) = buf ! idx # take k (drop (Suc idx) buf)"
      by (simp add: Cons_nth_drop_Suc [symmetric])
    have lock: "rdlock idx" using assms(4) by simp
    have step: "auth_method_loop cfg rdlock client buf idx (Suc k) =
        (if buf ! idx = 0 then AM_NO_AUTH
         else if buf ! idx = 2 then AM_USERNAME
         else auth_method_loop cfg rdlock client buf (Suc idx) k)"
      using True assms(1-3) lock by (subst auth_method_loop.simps) auto
    show ?thesis
      unfolding step split Suc.IH [of "Suc idx"] by simp
  qed
qed

text \<open>
  C4. The claim is that a whitelisted client that offers NoAuth anywhere gets NoAuth. The
  loop returns at the first offered method it can accept: for a whitelisted client with
  credentials configured (and the read lock acquired) the result is decided by the first
  offered method that is NoAuth or UsernamePassword. It is \<open>AM_NO_AUTH\<close> when NoAuth is
  offered with no UsernamePassword before it, \<open>AM_USERNAME\<close> when UsernamePassword comes
  first, and never \<open>AM_INVALID\<close> when NoAuth is offered.
\<close>

theorem check_auth_method_first_match:
  assumes "auth_user cfg \<noteq> None" and "auth_ips cfg = Some ips"
    and "is_in_authed_list client ips" and "\<forall>i. rdlock i" and "length ms \<le> 255"
  shows "check_auth_method cfg rdlock client (greeting ms) =
           (case find (\<lambda>m. m = 0 \<or> m = 2) ms of
              None \<Rightarrow> AM_INVALID
            | Some m \<Rightarrow> if m = 0 then AM_NO_AUTH else AM_USERNAME)
       \<and> (0 \<in> set ms \<longrightarrow> check_auth_method cfg rdlock client (greeting ms) \<noteq> AM_INVALID)
       \<and> (0 \<in> set ms \<and> 2 \<notin> set (takeWhile (\<lambda>m. m \<noteq> 0) ms) \<longrightarrow>
             check_auth_method cfg rdlock client (greeting ms) = AM_NO_AUTH)
       \<and> (2 \<in> set (takeWhile (\<lambda>m. m \<noteq> 0) ms) \<longrightarrow>
             check_auth_method cfg rdlock client (greeting ms) = AM_USERNAME)"
proof -
  have eq: "check_auth_method cfg rdlock client (greeting ms) =
           (case find (\<lambda>m. m = 0 \<or> m = 2) ms of
              None \<Rightarrow> AM_INVALID
            | Some m \<Rightarrow> if m = 0 then AM_NO_AUTH else AM_USERNAME)"
    using assms(5)
    by (simp add: check_auth_method_def greeting_def unat_of_nat_byte
        auth_method_loop_whitelisted [OF assms(1-4)])
  have a: "0 \<in> set ms \<Longrightarrow> find (\<lambda>m. m = 0 \<or> m = 2) ms \<noteq> None"
    by (auto simp: find_None_iff)
  have b: "0 \<in> set ms \<Longrightarrow> 2 \<notin> set (takeWhile (\<lambda>m. m \<noteq> 0) ms) \<Longrightarrow>
      find (\<lambda>m. m = 0 \<or> m = 2) ms = Some 0"
    by (induction ms) auto
  have c: "2 \<in> set (takeWhile (\<lambda>m. m \<noteq> 0) ms) \<Longrightarrow>
      find (\<lambda>m. m = 0 \<or> m = 2) ms = Some 2"
    by (induction ms) (auto split: if_splits)
  show ?thesis
    unfolding eq using a b c by (auto split: option.splits)
qed

theorem check_auth_method_first_match_witness:
  "auth_user sample_config \<noteq> None \<and> auth_ips sample_config = Some [sample_client]
   \<and> is_in_authed_list sample_client [sample_client] \<and> (\<forall>i. (\<lambda>_. True) i)
   \<and> length [1, 0, 2 :: byte] \<le> 255
   \<and> check_auth_method sample_config (\<lambda>_. True) sample_client (greeting [1, 0, 2]) = AM_NO_AUTH"
  using check_auth_method_first_match
    [of sample_config "[sample_client]" sample_client "\<lambda>_. True" "[1, 0, 2]"]
  by (simp add: sample_config_def sample_client_def is_authed_def)

text \<open>
  The claim of C4 as stated fails: the whitelisted client offers UsernamePassword and then
  NoAuth, and the server selects UsernamePassword.
\<close>

theorem check_auth_method_client_order_decides:
  "auth_user sample_config \<noteq> None \<and> auth_ips sample_config = Some [sample_client]
   \<and> is_in_authed_list sample_client [sample_client]
   \<and> 0 \<in> set [2, 0 :: byte]
   \<and> check_auth_method sample_config (\<lambda>_. True) sample_client (greeting [2, 0]) = AM_USERNAME"
  by (simp add: sample_config_def sample_client_def is_authed_def check_auth_method_def
      greeting_def auth_method_loop.simps)

section \<open>Requests and addresses\<close>

lemma parse_addrport_ok_iff:
  "(\<exists>r. parse_addrport P b = Inr r) \<longleftrightarrow>
     address_layout_ok b
     \<and> (b ! 0 = 1 \<longrightarrow> inet_ntop P AF_INET (take 4 (drop 1 b)) \<noteq> None)
     \<and> (b ! 0 = 4 \<longrightarrow> inet_ntop P AF_INET6 (take 16 (drop 1 b)) \<noteq> None)"
  by (auto simp: parse_addrport_def parse_ip_def address_layout_ok_def Let_def
      split: option.splits)

lemma parse_addrport_errors:
  "parse_addrport P b = Inl e \<Longrightarrow> e = EC_GENERAL_FAILURE \<or> e = EC_ADDRESSTYPE_NOT_SUPPORTED"
  by (auto simp: parse_addrport_def parse_ip_def Let_def split: option.splits if_splits)

text \<open>
  C5. \<open>parse_socks_request_header\<close> returns success exactly for the inputs whose first
  three bytes are 05, 01 or 03, 00 and whose remaining bytes start with a well-formed
  address that the resolver resolves. The checks run in the order version, command,
  reserved byte: fewer than three bytes or a wrong version give \<open>EC_GENERAL_FAILURE\<close>; with
  version 05 any other command gives \<open>EC_COMMAND_NOT_SUPPORTED\<close>, whatever the reserved
  byte; with a supported command a non-zero reserved byte gives \<open>EC_GENERAL_FAILURE\<close>, an
  address that is not well formed gives the error of \<open>parse_addrport\<close>, and an address that
  does not resolve gives \<open>EC_GENERAL_FAILURE\<close>.
\<close>

theorem parse_socks_request_header_accepts:
  "(parse_socks_request_header P buf = Inr (cmd, addr) \<longleftrightarrow>
      3 \<le> length buf \<and> buf ! 0 = 5 \<and> buf ! 1 = cmd_code cmd \<and> buf ! 2 = 0
      \<and> (\<exists>ap k. parse_addrport P (drop 3 buf) = Inr (ap, k)
            \<and> resolve P (if cmd = CONNECT then TCP_SOCKET else UDP_SOCKET)
                 (c_str (ap_addr ap)) (ap_port ap) = Some addr))
   \<and> ((\<exists>r. parse_addrport P b = Inr r) \<longleftrightarrow>
        address_layout_ok b
        \<and> (b ! 0 = 1 \<longrightarrow> inet_ntop P AF_INET (take 4 (drop 1 b)) \<noteq> None)
        \<and> (b ! 0 = 4 \<longrightarrow> inet_ntop P AF_INET6 (take 16 (drop 1 b)) \<noteq> None))
   \<and> (length buf < 3 \<or> buf ! 0 \<noteq> 5 \<longrightarrow>
        parse_socks_request_header P buf = Inl EC_GENERAL_FAILURE)
   \<and> (3 \<le> length buf \<and> buf ! 0 = 5 \<and> buf ! 1 \<noteq> 1 \<and> buf ! 1 \<noteq> 3 \<longrightarrow>
        parse_socks_request_header P buf = Inl EC_COMMAND_NOT_SUPPORTED)
   \<and> (3 \<le> length buf \<and> buf ! 0 = 5 \<and> (buf ! 1 = 1 \<or> buf ! 1 = 3) \<and> buf ! 2 \<noteq> 0 \<longrightarrow>
        parse_socks_request_header P buf = Inl EC_GENERAL_FAILURE)
   \<and> (3 \<le> length buf \<and> buf ! 0 = 5 \<and> (buf ! 1 = 1 \<or> buf ! 1 = 3) \<and> buf ! 2 = 0
        \<and> parse_addrport P (drop 3 buf) = Inr (ap, k)
        \<and> resolve P (if buf ! 1 = 1 then TCP_SOCKET else UDP_SOCKET)
             (c_str (ap_addr ap)) (ap_port ap) = None \<longrightarrow>
        parse_socks_request_header P buf = Inl EC_GENERAL_FAILURE)
   \<and> (3 \<le> length buf \<and> buf ! 0 = 5 \<and> (buf ! 1 = 1 \<or> buf ! 1 = 3) \<and> buf ! 2 = 0
        \<and> parse_addrport P (drop 3 buf) = Inl e \<longrightarrow>
        parse_socks_request_header P buf = Inl e
        \<and> (e = EC_GENERAL_FAILURE \<or> e = EC_ADDRESSTYPE_NOT_SUPPORTED))"
proof -
  have accept: "parse_socks_request_header P buf = Inr (cmd, addr) \<longleftrightarrow>
      3 \<le> length buf \<and> buf ! 0 = 5 \<and> buf ! 1 = cmd_code cmd \<and> buf ! 2 = 0
      \<and> (\<exists>ap k. parse_addrport P (drop 3 buf) = Inr (ap, k)
            \<and> resolve P (if cmd = CONNECT then TCP_SOCKET else UDP_SOCKET)
                 (c_str (ap_addr ap)) (ap_port ap) = Some addr)"
    by (cases cmd)
       (auto simp: parse_socks_request_header_def resolveSocks5Addrport_def Let_def
          split: sum.splits option.splits if_splits)
  have rest: "(length buf < 3 \<or> buf ! 0 \<noteq> 5 \<longrightarrow>
        parse_socks_request_header P buf = Inl EC_GENERAL_FAILURE)
   \<and> (3 \<le> length buf \<and> buf ! 0 = 5 \<and> buf ! 1 \<noteq> 1 \<and> buf ! 1 \<noteq> 3 \<longrightarrow>
        parse_socks_request_header P buf = Inl EC_COMMAND_NOT_SUPPORTED)
   \<and> (3 \<le> length buf \<and> buf ! 0 = 5 \<and> (buf ! 1 = 1 \<or> buf ! 1 = 3) \<and> buf ! 2 \<noteq> 0 \<longrightarrow>
        parse_socks_request_header P buf = Inl EC_GENERAL_FAILURE)
   \<and> (3 \<le> length buf \<and> buf ! 0 = 5 \<and> (buf ! 1 = 1 \<or> buf ! 1 = 3) \<and> buf ! 2 = 0
        \<and> parse_addrport P (drop 3 buf) = Inr (ap, k)
        \<and> resolve P (if buf ! 1 = 1 then TCP_SOCKET else UDP_SOCKET)
             (c_str (ap_addr ap)) (ap_port ap) = None \<longrightarrow>
        parse_socks_request_header P buf = Inl EC_GENERAL_FAILURE)"
    by (auto simp: parse_socks_request_header_def resolveSocks5Addrport_def Let_def)
  have bad: "3 \<le> length buf \<and> buf ! 0 = 5 \<and> (buf ! 1 = 1 \<or> buf ! 1 = 3) \<and> buf ! 2 = 0
        \<and> parse_addrport P (drop 3 buf) = Inl e \<longrightarrow>
        parse_socks_request_header P buf = Inl e
        \<and> (e = EC_GENERAL_FAILURE \<or> e = EC_ADDRESSTYPE_NOT_SUPPORTED)"
    using parse_addrport_errors [of P "drop 3 buf" e]
    by (auto simp: parse_socks_request_header_def)
  show ?thesis
    using accept parse_addrport_ok_iff [of P b] rest bad by blast
qed

theorem parse_socks_request_header_accepts_witness:
  "parse_socks_request_header sample_platform [5, 1, 0, 1, 127, 0, 0, 1, 0, 80] =
     Inr (CONNECT, \<lparr>sa_family = AF_INET, sa_addr = [127, 0, 0, 1], sa_port = 80\<rparr>)
   \<and> parse_socks_request_header sample_platform [5, 2, 0, 1, 127, 0, 0, 1, 0, 80] =
     Inl EC_COMMAND_NOT_SUPPORTED"
proof -
  let ?addr = "\<lparr>sa_family = AF_INET, sa_addr = [127, 0, 0, 1], sa_port = 80\<rparr>"
  let ?ap = "\<lparr>ap_type = SOCKS5_IPV4, ap_addr = loopback_text, ap_port = 80\<rparr>"
  have p: "parse_addrport sample_platform (drop 3 [5, 1, 0, 1, 127, 0, 0, 1, 0, 80]) = Inr (?ap, 7)"
    using parse_loopback [of "[]"] by simp
  have r: "resolve sample_platform TCP_SOCKET (c_str (ap_addr ?ap)) (ap_port ?ap) = Some ?addr"
    by (simp add: sample_platform_def sample_resolve_def c_str_loopback sample_pton_loopback)
  have a: "parse_socks_request_header sample_platform [5, 1, 0, 1, 127, 0, 0, 1, 0, 80] =
     Inr (CONNECT, ?addr)"
    using parse_socks_request_header_accepts
      [of sample_platform "[5, 1, 0, 1, 127, 0, 0, 1, 0, 80]" CONNECT ?addr] p r
    by simp
  have b: "parse_socks_request_header sample_platform [5, 2, 0, 1, 127, 0, 0, 1, 0, 80] =
     Inl EC_COMMAND_NOT_SUPPORTED"
    using parse_socks_request_header_accepts
      [of sample_platform "[5, 2, 0, 1, 127, 0, 0, 1, 0, 80]"]
    by simp
  show ?thesis using a b by simp
qed

text \<open>
  The claim of C5 as stated fails in three ways: a wrong version with an unsupported
  command gives \<open>EC_GENERAL_FAILURE\<close>, not \<open>EC_COMMAND_NOT_SUPPORTED\<close>; an unsupported
  command with a non-zero reserved byte gives \<open>EC_COMMAND_NOT_SUPPORTED\<close>, not
  \<open>EC_GENERAL_FAILURE\<close>; and a request with a well-formed address that does not resolve
  is not accepted.
\<close>

theorem parse_socks_request_header_check_order:
  "parse_socks_request_header sample_platform [4, 2, 0, 1, 127, 0, 0, 1, 0, 80] =
     Inl EC_GENERAL_FAILURE
   \<and> parse_socks_request_header sample_platform [5, 2, 1, 1, 127, 0, 0, 1, 0, 80] =
     Inl EC_COMMAND_NOT_SUPPORTED
   \<and> address_layout_ok [3, 5, 0x78, 0x78, 0x78, 0x78, 0x78, 0, 80]
   \<and> parse_socks_request_header sample_platform
       [5, 1, 0, 3, 5, 0x78, 0x78, 0x78, 0x78, 0x78, 0, 80] = Inl EC_GENERAL_FAILURE"
  by (simp add: parse_socks_request_header_def address_layout_ok_def parse_addrport_def
      addrport_of_def strncpy_def c_str_def MAX_DNS_LEN_def resolveSocks5Addrport_def
      sample_platform_def sample_resolve_def sample_pton_def dec_value_def localhost_name_def)

text \<open>
  C6. Parsing the encoding of an address record gives the record back, with the number of
  bytes of the encoding, whatever payload follows it. This holds for the records the code
  can read back: a domain name of at most 255 bytes without a NUL byte, or the text of an
  IPv4 or IPv6 address.
\<close>

theorem parse_encode_roundtrip:
  assumes "wf_addrport P x"
  shows "\<exists>bs. encode_addrport P x = Some bs
           \<and> parse_addrport P (bs @ payload) = Inr (x, length bs)"
proof -
  let ?a = "ap_addr x" and ?p = "ap_port x"
  from assms have nul: "0 \<notin> set ?a" and len: "length ?a \<le> 255"
    by (simp_all add: wf_addrport_def MAX_DNS_LEN_def)
  have cs: "c_str ?a = ?a" using nul by (rule c_str_id)
  have copy: "strncpy MAX_DNS_LEN (?a @ [0]) = ?a"
    using len by (simp add: strncpy_def c_str_append_nul cs MAX_DNS_LEN_def)
  have x_eq: "\<lparr>ap_type = ap_type x, ap_addr = ?a, ap_port = ?p\<rparr> = x" by simp
  show ?thesis
  proof (cases "ap_type x")
    case SOCKS5_DNS
    let ?bs = "[3, of_nat (length ?a)] @ ?a @ port_bytes ?p"
    have enc: "encode_addrport P x = Some ?bs"
      by (simp add: encode_addrport_def SOCKS5_DNS cs)
    have l: "unat ((?bs @ payload) ! 1) = length ?a"
      using len by (simp add: unat_of_nat_byte)
    have name: "take (length ?a) (drop 2 (?bs @ payload)) = ?a" by simp
    have hi: "(?bs @ payload) ! (1 + (1 + length ?a) + 2 - 2) = ucast (drop_bit 8 ?p)"
      by (simp add: nth_append port_bytes_def)
    have lo: "(?bs @ payload) ! (1 + (1 + length ?a) + 2 - 1) = ucast (?p AND 0xFF)"
      by (simp add: nth_append port_bytes_def)
    have "parse_addrport P (?bs @ payload) =
        Inr (addrport_of SOCKS5_DNS (?a @ [0]) (1 + (1 + length ?a) + 2) (?bs @ payload))"
      unfolding parse_addrport_def Let_def l name by (simp add: port_bytes_def)
    also have "\<dots> = Inr (x, length ?bs)"
      unfolding addrport_of_def hi lo copy port_roundtrip
      using x_eq SOCKS5_DNS by (simp add: port_bytes_def)
    finally show ?thesis using enc by blast
  next
    case SOCKS5_IPV4
    with assms obtain raw where raw: "inet_pton P AF_INET ?a = Some raw" "length raw = 4"
      "inet_ntop P AF_INET raw = Some ?a"
      by (auto simp: wf_addrport_def split: option.splits)
    let ?bs = "[1] @ raw @ port_bytes ?p"
    have enc: "encode_addrport P x = Some ?bs"
      by (simp add: encode_addrport_def SOCKS5_IPV4 cs raw)
    have hi: "(?bs @ payload) ! (1 + 4 + 2 - 2) = ucast (drop_bit 8 ?p)"
      using raw(2) by (simp add: nth_append port_bytes_def)
    have lo: "(?bs @ payload) ! (1 + 4 + 2 - 1) = ucast (?p AND 0xFF)"
      using raw(2) by (simp add: nth_append port_bytes_def)
    have "parse_addrport P (?bs @ payload) =
        Inr (addrport_of SOCKS5_IPV4 (?a @ [0]) (1 + 4 + 2) (?bs @ payload))"
      using raw by (simp add: parse_addrport_def parse_ip_def port_bytes_def)
    also have "\<dots> = Inr (x, length ?bs)"
      unfolding addrport_of_def hi lo copy port_roundtrip
      using x_eq SOCKS5_IPV4 raw(2) by (simp add: port_bytes_def)
    finally show ?thesis using enc by blast
  next
    case SOCKS5_IPV6
    with assms obtain raw where raw: "inet_pton P AF_INET6 ?a = Some raw" "length raw = 16"
      "inet_ntop P AF_INET6 raw = Some ?a"
      by (auto simp: wf_addrport_def split: option.splits)
    let ?bs = "[4] @ raw @ port_bytes ?p"
    have enc: "encode_addrport P x = Some ?bs"
      by (simp add: encode_addrport_def SOCKS5_IPV6 cs raw)
    have hi: "(?bs @ payload) ! (1 + 16 + 2 - 2) = ucast (drop_bit 8 ?p)"
      using raw(2) by (simp add: nth_append port_bytes_def)
    have lo: "(?bs @ payload) ! (1 + 16 + 2 - 1) = ucast (?p AND 0xFF)"
      using raw(2) by (simp add: nth_append port_bytes_def)
    have "parse_addrport P (?bs @ payload) =
        Inr (addrport_of SOCKS5_IPV6 (?a @ [0]) (1 + 16 + 2) (?bs @ payload))"
      using raw by (simp add: parse_addrport_def parse_ip_def port_bytes_def)
    also have "\<dots> = Inr (x, length ?bs)"
      unfolding addrport_of_def hi lo copy port_roundtrip
      using x_eq SOCKS5_IPV6 raw(2) by (simp add: port_bytes_def)
    finally show ?thesis using enc by blast
  qed
qed

theorem parse_encode_roundtrip_witness:
  "wf_addrport sample_platform \<lparr>ap_type = SOCKS5_IPV4, ap_addr = loopback_text, ap_port = 80\<rparr>
   \<and> (\<exists>bs. encode_addrport sample_platform
               \<lparr>ap_type = SOCKS5_IPV4, ap_addr = loopback_text, ap_port = 80\<rparr> = Some bs
          \<and> parse_addrport sample_platform (bs @ [0xDE, 0xAD]) =
              Inr (\<lparr>ap_type = SOCKS5_IPV4, ap_addr = loopback_text, ap_port = 80\<rparr>, length bs))
   \<and> encode_addrport sample_platform
        \<lparr>ap_type = SOCKS5_IPV4, ap_addr = loopback_text, ap_port = 80\<rparr>
        = Some [1, 127, 0, 0, 1, 0, 80]"
proof -
  let ?x = "\<lparr>ap_type = SOCKS5_IPV4, ap_addr = loopback_text, ap_port = 80\<rparr>"
  have wf: "wf_addrport sample_platform ?x"
    by (simp add: wf_addrport_def sample_platform_def sample_pton_loopback
        sample_ntop_loopback MAX_DNS_LEN_def)
       (simp add: loopback_text_def)
  have enc: "encode_addrport sample_platform ?x = Some [1, 127, 0, 0, 1, 0, 80]"
    by (simp add: encode_addrport_def sample_platform_def c_str_loopback
        sample_pton_loopback port_bytes_def)
  show ?thesis
    using wf parse_encode_roundtrip [OF wf, of "[0xDE, 0xAD]"] enc by simp
qed

text \<open>
  The claim of C6 as stated fails for a domain name with a NUL byte inside: the encoder
  measures the stored name with \<open>strlen\<close> and the parser copies it with \<open>strncpy\<close>, so the
  three name bytes \<open>a\<close>, NUL, \<open>b\<close> come back as the single byte \<open>a\<close>.
\<close>

theorem parse_addrport_cuts_name_at_nul:
  "encode_addrport sample_platform
      \<lparr>ap_type = SOCKS5_DNS, ap_addr = [0x61, 0, 0x62], ap_port = 80\<rparr>
     = Some [3, 1, 0x61, 0, 80]
   \<and> parse_addrport sample_platform [3, 1, 0x61, 0, 80] =
       Inr (\<lparr>ap_type = SOCKS5_DNS, ap_addr = [0x61], ap_port = 80\<rparr>, 5)
   \<and> parse_addrport sample_platform [3, 3, 0x61, 0, 0x62, 0, 80] =
       Inr (\<lparr>ap_type = SOCKS5_DNS, ap_addr = [0x61], ap_port = 80\<rparr>, 7)
   \<and> \<lparr>ap_type = SOCKS5_DNS, ap_addr = [0x61], ap_port = 80\<rparr>
       \<noteq> \<lparr>ap_type = SOCKS5_DNS, ap_addr = [0x61, 0, 0x62], ap_port = 80\<rparr>"
  by (simp add: encode_addrport_def parse_addrport_def addrport_of_def strncpy_def
      c_str_def MAX_DNS_LEN_def port_bytes_def)

section \<open>TCP relay\<close>














section \<open>Whitelist\<close>











section \<open>UDP relay\<close>


lemma sblist_search_None: "sblist_search xs cmp = None \<longleftrightarrow> (\<forall>x \<in> set xs. \<not> cmp x)"
  by (induction xs) auto

text \<open>What the client block does with a received datagram, in terms of \<open>udp_forward\<close>.\<close>

lemma udp_event_client:
  assumes "tcp_fd \<noteq> udp_fd" and "u_ident ev = udp_fd" and "u_udp_recv ev = IoData buf"
    and "udp_is_bound st \<or> u_pin_ok ev"
    and "udp_forward P tcp_fd (st\<lparr>udp_is_bound := True\<rparr>) ev buf = (tr, st', r)"
  shows "udp_event P tcp_fd udp_fd st ev =
     (Recv udp_fd buf # (if udp_is_bound st then [] else [Connect udp_fd (u_peer ev) True]) @ tr,
      st', r)"
proof (cases "udp_is_bound st")
  case True
  then have "st\<lparr>udp_is_bound := True\<rparr> = st" by simp
  with assms True show ?thesis
    by (cases r) (auto simp: udp_event_def udp_client_block_def)
next
  case False
  with assms show ?thesis
    by (cases r) (auto simp: udp_event_def udp_client_block_def)
qed




lemma udp_loop_end:
  assumes "udp_event P tcp_fd udp_fd st ev = (tr, st', End)"
  shows "udp_loop P tcp_fd udp_fd kq st (KReady (ev # evs) # ks) =
     (tr @ map (\<lambda>it. Close (item_fd it)) (sock_list st') @ [Close kq], Return)"
  using assms by (simp add: udp_loop_def udp_teardown_def)

text \<open>
  C10. When the destination of a client datagram is not in the flow table and either the
  resolver fails or the new socket cannot be connected, the loop ends there: the sockets
  of all flows in the table are closed, then the queue, and neither the remaining events
  of this wait nor any later wait is served. On a failed \<open>connect\<close> an error reply is
  first written to the control socket.
\<close>

theorem udp_new_flow_failure_ends_session:
  assumes "tcp_fd \<noteq> udp_fd" and "u_ident ev = udp_fd" and "u_udp_recv ev = IoData buf"
    and "udp_is_bound st \<or> u_pin_ok ev"
    and "extract_udp_data P buf = Inr (D, off)"
    and "sblist_search (sock_list st) (\<lambda>it. compareSocks5Addrport D (item_addrport it)) = None"
  shows "(resolve P UDP_SOCKET (c_str (ap_addr D)) (ap_port D) = None \<longrightarrow>
            udp_loop P tcp_fd udp_fd kq st (KReady (ev # evs) # ks) =
              (Recv udp_fd buf
                 # (if udp_is_bound st then [] else [Connect udp_fd (u_peer ev) True])
                 @ map (\<lambda>it. Close (item_fd it)) (sock_list st) @ [Close kq],
               Return))
       \<and> (\<forall>target. resolve P UDP_SOCKET (c_str (ap_addr D)) (ap_port D) = Some target
              \<and> \<not> u_connect_ok ev \<longrightarrow>
            udp_loop P tcp_fd udp_fd kq st (KReady (ev # evs) # ks) =
              (Recv udp_fd buf
                 # (if udp_is_bound st then [] else [Connect udp_fd (u_peer ev) True])
                 @ [Socket (u_socket ev), Connect (u_socket ev) target False,
                    Write tcp_fd (error_reply 1) (u_error_write ev)]
                 @ map (\<lambda>it. Close (item_fd it)) (sock_list st) @ [Close kq],
               Return))"
proof (intro conjI allI impI)
  assume nores: "resolve P UDP_SOCKET (c_str (ap_addr D)) (ap_port D) = None"
  have fw: "udp_forward P tcp_fd (st\<lparr>udp_is_bound := True\<rparr>) ev buf =
      ([], st\<lparr>udp_is_bound := True\<rparr>, End)"
    using assms(5,6) nores by (simp add: udp_forward_def resolveSocks5Addrport_def)
  from udp_loop_end [OF udp_event_client [OF assms(1-4) fw], of kq evs ks]
  show "udp_loop P tcp_fd udp_fd kq st (KReady (ev # evs) # ks) =
      (Recv udp_fd buf # (if udp_is_bound st then [] else [Connect udp_fd (u_peer ev) True])
         @ map (\<lambda>it. Close (item_fd it)) (sock_list st) @ [Close kq], Return)"
    by simp
next
  fix target
  assume noconn: "resolve P UDP_SOCKET (c_str (ap_addr D)) (ap_port D) = Some target
      \<and> \<not> u_connect_ok ev"
  have fw: "udp_forward P tcp_fd (st\<lparr>udp_is_bound := True\<rparr>) ev buf =
      ([Socket (u_socket ev), Connect (u_socket ev) target False,
        Write tcp_fd (error_reply 1) (u_error_write ev)], st\<lparr>udp_is_bound := True\<rparr>, End)"
    using assms(5,6) noconn
    by (simp add: udp_forward_def resolveSocks5Addrport_def send_error_def Let_def)
  from udp_loop_end [OF udp_event_client [OF assms(1-4) fw], of kq evs ks]
  show "udp_loop P tcp_fd udp_fd kq st (KReady (ev # evs) # ks) =
      (Recv udp_fd buf # (if udp_is_bound st then [] else [Connect udp_fd (u_peer ev) True])
         @ [Socket (u_socket ev), Connect (u_socket ev) target False,
            Write tcp_fd (error_reply 1) (u_error_write ev)]
         @ map (\<lambda>it. Close (item_fd it)) (sock_list st) @ [Close kq], Return)"
    by simp
qed

theorem udp_new_flow_failure_ends_session_witness:
  "(3 :: int) \<noteq> 5
   \<and> extract_udp_data sample_platform lost_datagram = Inr (lost_flow, 12)
   \<and> udp_loop sample_platform 3 5 9 one_flow
        [KReady [sample_udp_ready\<lparr>u_udp_recv := IoData lost_datagram\<rparr>, sample_udp_ready],
         KReady [sample_udp_ready]] =
       ([Recv 5 lost_datagram, Close 6, Close 9], Return)
   \<and> udp_loop sample_platform 3 5 9 \<lparr>udp_is_bound = True, sock_list = []\<rparr>
        [KReady [sample_udp_ready\<lparr>u_connect_ok := False\<rparr>, sample_udp_ready]] =
       ([Recv 5 dns_datagram, Socket 6,
         Connect 6 \<lparr>sa_family = AF_INET, sa_addr = [127, 0, 0, 1], sa_port = 53\<rparr> False,
         Write 3 [5, 1, 0, 1, 0, 0, 0, 0, 0, 0] 10, Close 9], Return)"
proof -
  let ?lost = "sample_udp_ready\<lparr>u_udp_recv := IoData lost_datagram\<rparr>"
  let ?refused = "sample_udp_ready\<lparr>u_connect_ok := False\<rparr>"
  have a: "udp_loop sample_platform 3 5 9 one_flow
        [KReady [?lost, sample_udp_ready], KReady [sample_udp_ready]] =
       ([Recv 5 lost_datagram, Close 6, Close 9], Return)"
    using udp_new_flow_failure_ends_session
      [of 3 5 ?lost lost_datagram one_flow sample_platform lost_flow 12 9
          "[sample_udp_ready]" "[KReady [sample_udp_ready]]"]
      extract_lost_datagram resolve_lost_flow compare_lost_flow
    by (simp add: sample_udp_ready_def one_flow_def)
  have b: "udp_loop sample_platform 3 5 9 \<lparr>udp_is_bound = True, sock_list = []\<rparr>
        [KReady [?refused, sample_udp_ready]] =
       ([Recv 5 dns_datagram, Socket 6,
         Connect 6 \<lparr>sa_family = AF_INET, sa_addr = [127, 0, 0, 1], sa_port = 53\<rparr> False,
         Write 3 [5, 1, 0, 1, 0, 0, 0, 0, 0, 0] 10, Close 9], Return)"
    using udp_new_flow_failure_ends_session
      [of 3 5 ?refused dns_datagram "\<lparr>udp_is_bound = True, sock_list = []\<rparr>" sample_platform
          sample_flow 10 9 "[sample_udp_ready]" "[]"]
      extract_dns_datagram resolve_sample_flow
    by (simp add: sample_udp_ready_def error_reply_def)
  show ?thesis using a b extract_lost_datagram by simp
qed

section \<open>Request errors\<close>

text \<open>
  A request that \<open>parse_socks_request_header\<close> rejects ends the session without any
  write; a failure of \<open>connect_socks_target\<close> is answered with one error reply.
\<close>

lemma step_authed_parse_error:
  "parse_socks_request_header P buf = Inl e \<Longrightarrow> step_authed P cfd io buf t = ([], t, Return)"
  by (simp add: step_authed_def)

lemma request_connect_failure:
  "connect_socks_target (r_connect io) address = (tr, ret) \<Longrightarrow> ret < 0 \<Longrightarrow>
     request_connect cfd io address t =
       (tr @ [Write cfd (error_reply (- ret)) (r_write io)], t, Return)"
  by (simp add: request_connect_def send_error_def)

text \<open>
  C1. The claim is that every request received in the AUTHED state that yields a
  non-Success code is answered with exactly one error reply on the control socket, which is
  then closed. The two runs below are a session without authentication on socket 3. In the
  first the client sends a BIND request: \<open>parse_socks_request_header\<close> yields
  \<open>EC_COMMAND_NOT_SUPPORTED\<close>, and \<open>clientthread\<close> closes the socket without writing a
  reply. In the second the client sends a CONNECT request and the connection is refused:
  one error reply with code 5 is written before the socket is closed.
\<close>

theorem clientthread_no_reply_on_request_error:
  "clientthread sample_platform 3 sample_client open_config zero_traffic
      [(greeting [0], sample_request_io\<lparr>r_write := 2\<rparr>),
       ([5, 2, 0, 1, 127, 0, 0, 1, 0, 80], sample_request_io)] =
     ([Recv 3 [5, 1, 0], Write 3 [5, 0] 2, Recv 3 [5, 2, 0, 1, 127, 0, 0, 1, 0, 80], Close 3],
      \<lparr>ss_state = SS_3_AUTHED, ss_config = open_config, ss_traffic = zero_traffic\<rparr>, Return)
   \<and> parse_socks_request_header sample_platform [5, 2, 0, 1, 127, 0, 0, 1, 0, 80] =
       Inl EC_COMMAND_NOT_SUPPORTED
   \<and> clientthread sample_platform 3 sample_client open_config zero_traffic
      [(greeting [0], sample_request_io\<lparr>r_write := 2\<rparr>),
       ([5, 1, 0, 1, 127, 0, 0, 1, 0, 80], sample_request_io)] =
     ([Recv 3 [5, 1, 0], Write 3 [5, 0] 2, Recv 3 [5, 1, 0, 1, 127, 0, 0, 1, 0, 80],
       Socket 4, Connect 4 \<lparr>sa_family = AF_INET, sa_addr = [127, 0, 0, 1], sa_port = 80\<rparr> False,
       Close 4, Write 3 [5, 5, 0, 1, 0, 0, 0, 0, 0, 0] 10, Close 3],
      \<lparr>ss_state = SS_3_AUTHED, ss_config = open_config, ss_traffic = zero_traffic\<rparr>, Return)"
proof -
  have g: "check_auth_method open_config (\<lambda>i. True) sample_client (greeting [0]) = AM_NO_AUTH"
    by (simp add: check_auth_method_def greeting_def open_config_def auth_method_loop.simps)
  have bind: "parse_socks_request_header sample_platform [5, 2, 0, 1, 127, 0, 0, 1, 0, 80] =
       Inl EC_COMMAND_NOT_SUPPORTED"
    by (simp add: parse_socks_request_header_def)
  have p: "parse_addrport sample_platform [1, 127, 0, 0, 1, 0, 80] =
      Inr (\<lparr>ap_type = SOCKS5_IPV4, ap_addr = loopback_text, ap_port = 80\<rparr>, 7)"
    using parse_loopback [of "[]"] by simp
  have conn: "parse_socks_request_header sample_platform [5, 1, 0, 1, 127, 0, 0, 1, 0, 80] =
       Inr (CONNECT, \<lparr>sa_family = AF_INET, sa_addr = [127, 0, 0, 1], sa_port = 80\<rparr>)"
  proof -
    have r: "resolve sample_platform TCP_SOCKET (c_str loopback_text) 80 =
        Some \<lparr>sa_family = AF_INET, sa_addr = [127, 0, 0, 1], sa_port = 80\<rparr>"
      by (simp add: sample_platform_def sample_resolve_def c_str_loopback sample_pton_loopback)
    show ?thesis
      by (simp add: parse_socks_request_header_def p resolveSocks5Addrport_def r)
  qed
  show ?thesis
    using g bind conn
    by (simp add: clientthread_def client_step_def step_connected_def step_authed_def
        send_auth_response_def sample_request_io_def greeting_def request_connect_def
        connect_socks_target_def send_error_def error_reply_def ec_int_def)
qed

end
